theory Spec2Isabelle
  imports Main "HOL-Library.AList"
begin

section \<open>The double-loop coordinator of \<^verbatim>\<open>prescient_plugin.py\<close>\<close>

text \<open>
  The class \<^verbatim>\<open>DoubleLoopCoordinator\<close> holds a bidder and a tracker and registers its
  methods as callbacks of the Prescient simulator. Each callback reads and writes the
  simulator's extensions dictionary and the market objects it is handed.

  Python dictionaries are association lists with distinct keys: \<open>map_of\<close> is the
  lookup \<^verbatim>\<open>d[k]\<close>, \<open>AList.update\<close> is the assignment \<^verbatim>\<open>d[k] = v\<close> (in place when the
  key is there, appended otherwise), and the list order is the order of \<^verbatim>\<open>d.items()\<close>.
  Dispatch levels, powers and costs are only moved by this code, never computed with:
  their type is the parameter \<open>'v\<close>.
\<close>

subsection \<open>Errors\<close>

datatype key = KStr string | KInt int | KPair string int

datatype error =
    KeyError key
  | AttributeError string
  | NameError string
  | TypeError string
  | IndexError
  | External string

subsection \<open>Data\<close>

type_synonym obj = nat
type_synonym date = string

record time =
  date :: date
  hour :: int

record options =
  bidding_generator :: string
  ruc_horizon :: int
  sced_horizon :: int
  output_directory :: string

text \<open>A bid set is \<^verbatim>\<open>{t: {generator: {power: cost}}}\<close>.\<close>

type_synonym 'v curve = "('v \<times> 'v) list"
type_synonym 'v bids = "(int \<times> (string \<times> 'v curve) list) list"

text \<open>What the extensions hold under \<^verbatim>\<open>'current_bids'\<close> and \<^verbatim>\<open>'next_bids'\<close>: a bid
  set or Python's \<^verbatim>\<open>None\<close>.\<close>

datatype 'v bids_val = NoBids | Bids "'v bids"

text \<open>
  \<^verbatim>\<open>simulator.data_manager.extensions\<close>. The code uses four keys of this dictionary;
  each field is \<open>None\<close> when the key is absent and \<open>Some\<close> of the stored value
  otherwise.
\<close>

record 'v extensions =
  customized_results :: "(string \<times> string list) list option"
  plugin_objects :: "(string \<times> obj) list option"
  current_bids :: "'v bids_val option"
  next_bids :: "'v bids_val option"

text \<open>A cleared day-ahead market: \<^verbatim>\<open>thermal_gen_cleared_DA\<close> is keyed by
  \<^verbatim>\<open>(generator, t)\<close>.\<close>

record 'v ruc_market =
  thermal_gen_cleared_DA :: "((string \<times> int) \<times> 'v) list"

text \<open>
  The simulator: \<^verbatim>\<open>time_manager.current_time\<close> (\<^verbatim>\<open>None\<close> before the first time step),
  \<^verbatim>\<open>data_manager.extensions\<close>, \<^verbatim>\<open>data_manager.ruc_market_active\<close> and
  \<^verbatim>\<open>data_manager.ruc_market_pending\<close> (which the code compares with \<^verbatim>\<open>None\<close>).
\<close>

record 'v simulator =
  current_time :: "time option"
  extensions :: "'v extensions"
  ruc_market_active :: "'v ruc_market"
  ruc_market_pending :: "'v ruc_market option"

text \<open>
  An entry of a generator's dictionary in a RUC or SCED instance:
  \<^item> \<open>TimeSeries xs\<close> is \<^verbatim>\<open>{'data_type': 'time_series', 'values': xs}\<close>;
  \<^item> \<open>CostCurve c\<close> is
    \<^verbatim>\<open>{'data_type': 'cost_curve', 'cost_curve_type': 'piecewise', 'values': c}\<close>;
  \<^item> \<open>CostCurveSeries cs\<close> is \<^verbatim>\<open>{'data_type': 'time_series', 'values': [...]}\<close> with
    one piecewise cost curve for each element of \<open>cs\<close>.
  An instance is \<^verbatim>\<open>instance.data['elements']['generator']\<close>.
\<close>

datatype 'v gen_field =
    TimeSeries "'v list"
  | CostCurve "'v curve"
  | CostCurveSeries "'v curve list"

text \<open>
  An element of the \<^verbatim>\<open>'values'\<close> list of such an entry: a dispatch level (a number), a
  point \<^verbatim>\<open>(power, cost)\<close> of a cost curve, or a piecewise cost curve. The assembled SCED
  signals are lists of such elements, since the code copies elements of a \<^verbatim>\<open>'values'\<close>
  list into them without looking at the kind of the entry.
\<close>

datatype 'v cell = Level 'v | Point 'v 'v | Piecewise "'v curve"


type_synonym 'v gen_dict = "(string \<times> 'v gen_field) list"
type_synonym 'v market_instance = "(string \<times> 'v gen_dict) list"

text \<open>Calls of the methods of the bidder and of the tracker, in the order they are made
  (the receiver and the arguments that are dates, hours, names or paths).\<close>

datatype call =
    Update_model obj
  | Stochastic_bidding obj date
  | Pass_schedule_to_track obj date int
  | Get_last_delivered_power obj string
  | Write_results obj string

text \<open>
  The bidder and the tracker live outside this file. What a call of one of their methods
  returns (or raises) is given by the environment, and may depend on every call made
  before it.
\<close>

type_synonym 'v signals = "(string \<times> 'v list) list"
type_synonym 'v trajectory = "(string \<times> 'v signals) list"
type_synonym 'v sced_signals = "(string \<times> 'v cell list) list"

record 'v env =
  update_model :: "call list \<Rightarrow> obj \<Rightarrow> 'v trajectory \<Rightarrow> error + unit"
  stochastic_bidding :: "call list \<Rightarrow> obj \<Rightarrow> date \<Rightarrow> error + 'v bids"
  pass_schedule_to_track ::
    "call list \<Rightarrow> obj \<Rightarrow> 'v sced_signals \<Rightarrow> date \<Rightarrow> int \<Rightarrow> error + unit"
  get_last_delivered_power :: "call list \<Rightarrow> obj \<Rightarrow> string \<Rightarrow> error + 'v"
  write_results :: "call list \<Rightarrow> obj \<Rightarrow> string \<Rightarrow> error + unit"

text \<open>
  Everything a callback can reach: the simulator, the RUC and SCED instances and the
  operations statistics it is handed, and the calls made so far.
\<close>

record 'v world =
  sim :: "'v simulator"
  ruc_instance :: "'v market_instance"
  sced_instance :: "'v market_instance"
  observed_thermal_dispatch_levels :: "(string \<times> 'v) list"
  calls :: "call list"

record coordinator =
  bidder :: obj
  tracker :: obj

subsection \<open>Statements that may raise\<close>

text \<open>A statement takes the world to an outcome (\<open>Inl\<close> the exception raised) and the
  world as it is left: what was written before an exception stays written.\<close>

type_synonym ('v, 'a) action = "'v world \<Rightarrow> (error + 'a) \<times> 'v world"

definition ret :: "'a \<Rightarrow> ('v, 'a) action" where
  "ret x = (\<lambda>w. (Inr x, w))"

definition raise :: "error \<Rightarrow> ('v, 'a) action" where
  "raise e = (\<lambda>w. (Inl e, w))"

definition seq :: "('v, 'a) action \<Rightarrow> ('a \<Rightarrow> ('v, 'b) action) \<Rightarrow> ('v, 'b) action" where
  "seq m f = (\<lambda>w. case m w of (Inl e, w') \<Rightarrow> (Inl e, w') | (Inr x, w') \<Rightarrow> f x w')"

definition subscript :: "key \<Rightarrow> 'a option \<Rightarrow> ('v, 'a) action" where
  "subscript k x = (case x of None \<Rightarrow> raise (KeyError k) | Some y \<Rightarrow> ret y)"

definition get_extensions :: "('v, 'v extensions) action" where
  "get_extensions = (\<lambda>w. (Inr (extensions (sim w)), w))"

definition set_extensions :: "('v extensions \<Rightarrow> 'v extensions) \<Rightarrow> ('v, unit) action" where
  "set_extensions f = (\<lambda>w. (Inr (), w\<lparr>sim := (sim w)\<lparr>extensions := f (extensions (sim w))\<rparr>\<rparr>))"

text \<open>\<^verbatim>\<open>simulator.data_manager.extensions['plugin_objects'][name]\<close>\<close>

definition plugin_object :: "string \<Rightarrow> ('v, obj) action" where
  "plugin_object name =
     seq get_extensions (\<lambda>ext.
     seq (subscript (KStr ''plugin_objects'') (plugin_objects ext)) (\<lambda>plugin_dict.
     subscript (KStr name) (map_of plugin_dict name)))"


subsection \<open>Names that are not bound\<close>

text \<open>
  The module binds three names: \<^verbatim>\<open>Option\<close>, \<^verbatim>\<open>prescient\<close> and
  \<^verbatim>\<open>DoubleLoopCoordinator\<close>. Every function of the file is a method of the class, and a
  method body does not see the names of the class body: a method called by its bare name,
  without \<^verbatim>\<open>self.\<close>, is looked up among the module's names and the builtins, is not
  found, and the call raises \<^verbatim>\<open>NameError\<close> before any argument is passed. The methods
  called this way are \<^verbatim>\<open>project_tracking_trajectory\<close> and \<^verbatim>\<open>_pass_DA_bid_to_prescient\<close>
  (in \<^verbatim>\<open>bid_into_DAM\<close>), \<^verbatim>\<open>pass_RT_bid_to_prescient\<close> (in \<^verbatim>\<open>bid_into_RTM\<close>),
  \<^verbatim>\<open>assemble_sced_tracking_market_signals\<close> (in \<^verbatim>\<open>track_sced_signal\<close>),
  \<^verbatim>\<open>assemble_project_tracking_signal\<close> and \<^verbatim>\<open>get_full_projected_trajectory\<close> (in
  \<^verbatim>\<open>project_tracking_trajectory\<close>).
\<close>

definition module_names :: "string list" where
  "module_names = [''Option'', ''prescient'', ''DoubleLoopCoordinator'']"

definition call_unbound :: "string \<Rightarrow> ('v, 'a) action" where
  "call_unbound name = raise (NameError name)"

subsection \<open>Calls of the bidder and of the tracker\<close>

definition external :: "call \<Rightarrow> (call list \<Rightarrow> error + 'a) \<Rightarrow> ('v, 'a) action" where
  "external c answer = (\<lambda>w. (answer (calls w), w\<lparr>calls := calls w @ [c]\<rparr>))"

subsection \<open>Registration\<close>

datatype callback =
    Initialize_customized_results
  | Initialize_bidding_object
  | Initialize_tracking_object
  | Bid_into_DAM
  | Bid_into_RTM
  | Track_sced_signal
  | Update_observed_thermal_dispatch
  | After_ruc_activation
  | Write_plugin_results

text \<open>One hook for each registration function of \<^verbatim>\<open>prescient.plugins\<close>.\<close>

datatype hook =
    Initialization
  | Before_ruc_solve
  | Before_operations_solve
  | After_operations
  | Update_operations_stats
  | After_ruc_activation_hook
  | After_simulation

datatype default_val = DBool bool | DInt int | DStr string

record cmd_option =
  flag :: string
  dest :: string
  default_value :: default_val

text \<open>The calls into \<^verbatim>\<open>prescient.plugins\<close>, in the order they are made.\<close>

datatype plugin_call =
    Add_custom_commandline_option cmd_option
  | Register hook callback

type_synonym registry = "plugin_call list"

definition register_custom_commandline_options :: "registry \<Rightarrow> registry" where
  "register_custom_commandline_options reg = reg @ map Add_custom_commandline_option
     [\<lparr>flag = ''--track-ruc-signal'', dest = ''track_ruc_signal'', default_value = DBool False\<rparr>,
      \<lparr>flag = ''--track-sced-signal'', dest = ''track_sced_signal'', default_value = DBool False\<rparr>,
      \<lparr>flag = ''--hybrid-tracking'', dest = ''hybrid_tracking'', default_value = DBool False\<rparr>,
      \<lparr>flag = ''--track-horizon'', dest = ''track_horizon'', default_value = DInt 48\<rparr>,
      \<lparr>flag = ''--bidding-generator'', dest = ''bidding_generator'',
         default_value = DStr ''102_STEAM_3''\<rparr>,
      \<lparr>flag = ''--bidding'', dest = ''bidding'', default_value = DBool False\<rparr>,
      \<lparr>flag = ''--deviation-weight'', dest = ''deviation_weight'', default_value = DInt 30\<rparr>,
      \<lparr>flag = ''--ramping-weight'', dest = ''ramping_weight'', default_value = DInt 20\<rparr>,
      \<lparr>flag = ''--cost-weight'', dest = ''cost_weight'', default_value = DInt 1\<rparr>,
      \<lparr>flag = ''--rts_gmlc_data_dir'', dest = ''rts_gmlc_data_dir'',
         default_value = DStr ''./RTS-GMLC/RTS_Data/SourceData/''\<rparr>,
      \<lparr>flag = ''--price_forecast_file'', dest = ''price_forecast_file'',
         default_value = DStr ''../../prescient/plugins/price_forecasts/lmp_forecasts_concat.csv''\<rparr>]"

definition register_initialization_callbacks :: "registry \<Rightarrow> registry" where
  "register_initialization_callbacks reg =
     reg @ [Register Initialization Initialize_customized_results]
         @ [Register Initialization Initialize_bidding_object]
         @ [Register Initialization Initialize_tracking_object]"

definition register_before_ruc_solve_callbacks :: "registry \<Rightarrow> registry" where
  "register_before_ruc_solve_callbacks reg = reg @ [Register Before_ruc_solve Bid_into_DAM]"

definition register_before_operations_solve_callbacks :: "registry \<Rightarrow> registry" where
  "register_before_operations_solve_callbacks reg =
     reg @ [Register Before_operations_solve Bid_into_RTM]"

definition register_after_operations_callbacks :: "registry \<Rightarrow> registry" where
  "register_after_operations_callbacks reg = reg @ [Register After_operations Track_sced_signal]"

definition register_update_operations_stats_callbacks :: "registry \<Rightarrow> registry" where
  "register_update_operations_stats_callbacks reg =
     reg @ [Register Update_operations_stats Update_observed_thermal_dispatch]"

definition register_after_ruc_activation_callbacks :: "registry \<Rightarrow> registry" where
  "register_after_ruc_activation_callbacks reg =
     reg @ [Register After_ruc_activation_hook After_ruc_activation]"

definition register_after_simulation_callback :: "registry \<Rightarrow> registry" where
  "register_after_simulation_callback reg = reg @ [Register After_simulation Write_plugin_results]"

definition register_callbacks :: "registry \<Rightarrow> registry" where
  "register_callbacks reg =
     register_after_simulation_callback
      (register_after_ruc_activation_callbacks
       (register_update_operations_stats_callbacks
        (register_after_operations_callbacks
         (register_before_operations_solve_callbacks
          (register_before_ruc_solve_callbacks
           (register_initialization_callbacks
            (register_custom_commandline_options reg)))))))"

text \<open>\<^verbatim>\<open>__init__\<close>: the new coordinator and the registry after its registrations.\<close>

definition DoubleLoopCoordinator :: "obj \<Rightarrow> obj \<Rightarrow> registry \<Rightarrow> coordinator \<times> registry" where
  "DoubleLoopCoordinator b t reg = (\<lparr>bidder = b, tracker = t\<rparr>, register_callbacks reg)"

text \<open>The callbacks registered at a hook, in the order of their registration.\<close>

fun callbacks_at :: "hook \<Rightarrow> registry \<Rightarrow> callback list" where
  "callbacks_at h [] = []"
| "callbacks_at h (Add_custom_commandline_option opt # reg) = callbacks_at h reg"
| "callbacks_at h (Register h' cb # reg) =
     (if h' = h then cb # callbacks_at h reg else callbacks_at h reg)"

subsection \<open>The initialization callbacks\<close>

definition initialize_customized_results :: "options \<Rightarrow> ('v, unit) action" where
  "initialize_customized_results opts =
     seq (set_extensions (\<lambda>ext. ext\<lparr>customized_results := Some []\<rparr>)) (\<lambda>_.
     set_extensions (\<lambda>ext. ext\<lparr>customized_results :=
       map_option
         (AList.update ''Power Output'' [] \<circ> AList.update ''SCED Schedule'' [] \<circ>
          AList.update ''RUC Schedule'' [] \<circ> AList.update ''State'' [] \<circ>
          AList.update ''Hour'' [] \<circ> AList.update ''Date'' [] \<circ>
          AList.update ''Generator'' [])
         (customized_results ext)\<rparr>))"

text \<open>
  \<^verbatim>\<open>
  plugin_dict = simulator.data_manager.extensions.setdefault('plugin_objects',{})
  plugin_dict['bidder'] = self.bidder
  \<close>
  \<^verbatim>\<open>setdefault\<close> returns the dictionary that is stored, or stores an empty one; the
  assignment writes into that dictionary.
\<close>

definition store_plugin_object :: "string \<Rightarrow> obj \<Rightarrow> ('v, unit) action" where
  "store_plugin_object name x =
     set_extensions (\<lambda>ext. ext\<lparr>plugin_objects :=
       Some (AList.update name x (case plugin_objects ext of None \<Rightarrow> [] | Some d \<Rightarrow> d))\<rparr>)"

definition initialize_bidding_object :: "coordinator \<Rightarrow> options \<Rightarrow> ('v, unit) action" where
  "initialize_bidding_object self opts = store_plugin_object ''bidder'' (bidder self)"

definition initialize_tracking_object :: "coordinator \<Rightarrow> options \<Rightarrow> ('v, unit) action" where
  "initialize_tracking_object self opts = store_plugin_object ''tracker'' (tracker self)"

subsection \<open>Passing bids to the market instances\<close>

text \<open>
  \<^verbatim>\<open>[list(bids[t][gen_name].items()) for t in range(options.ruc_horizon)]\<close>: the loop
  stops at the first key that is missing.
\<close>

fun bid_curves :: "'v bids \<Rightarrow> string \<Rightarrow> int list \<Rightarrow> error + 'v curve list" where
  "bid_curves bids gen_name [] = Inr []"
| "bid_curves bids gen_name (t # ts) =
     (case map_of bids t of
        None \<Rightarrow> Inl (KeyError (KInt t))
      | Some by_gen \<Rightarrow>
          (case map_of by_gen gen_name of
             None \<Rightarrow> Inl (KeyError (KStr gen_name))
           | Some curve \<Rightarrow>
               (case bid_curves bids gen_name ts of
                  Inl e \<Rightarrow> Inl e
                | Inr curves \<Rightarrow> Inr (curve # curves))))"

text \<open>
  \<^verbatim>\<open>_pass_DA_bid_to_prescient\<close>. Its only write is its last statement, so it returns the
  instance as written or the exception raised.
\<close>

definition pass_DA_bid_to_prescient ::
  "options \<Rightarrow> 'v market_instance \<Rightarrow> 'v bids \<Rightarrow> error + 'v market_instance" where
  "pass_DA_bid_to_prescient opts ruc bids =
     (let gen_name = bidding_generator opts in
      case map_of ruc gen_name of
        None \<Rightarrow> Inl (KeyError (KStr gen_name))
      | Some gen_dict \<Rightarrow>
          (case bid_curves bids gen_name [0..ruc_horizon opts - 1] of
             Inl e \<Rightarrow> Inl e
           | Inr p_cost \<Rightarrow>
               Inr (AList.update gen_name
                     (AList.update ''p_cost''
                        (CostCurveSeries (map (\<lambda>t. p_cost ! nat t) [0..ruc_horizon opts - 1]))
                        gen_dict)
                     ruc)))"

text \<open>
  \<^verbatim>\<open>pass_RT_bid_to_prescient\<close>. The bids it is handed are what the extensions hold, a
  bid set or \<^verbatim>\<open>None\<close>, and \<^verbatim>\<open>None\<close> cannot be subscripted.
\<close>

definition pass_RT_bid_to_prescient ::
  "options \<Rightarrow> 'v market_instance \<Rightarrow> 'v bids_val \<Rightarrow> int \<Rightarrow> error + 'v market_instance" where
  "pass_RT_bid_to_prescient opts sced bids h =
     (let gen_name = bidding_generator opts in
      case map_of sced gen_name of
        None \<Rightarrow> Inl (KeyError (KStr gen_name))
      | Some gen_dict \<Rightarrow>
          (case bids of
             NoBids \<Rightarrow> Inl (TypeError ''NoneType is not subscriptable'')
           | Bids bs \<Rightarrow>
               (case map_of bs h of
                  None \<Rightarrow> Inl (KeyError (KInt h))
                | Some by_gen \<Rightarrow>
                    (case map_of by_gen gen_name of
                       None \<Rightarrow> Inl (KeyError (KStr gen_name))
                     | Some p_cost \<Rightarrow>
                         Inr (AList.update gen_name
                               (AList.update ''p_cost'' (CostCurve p_cost) gen_dict) sced)))))"

subsection \<open>Assembling the signals to track\<close>

text \<open>
  The loop of \<^verbatim>\<open>assemble_project_tracking_signal\<close> over \<^verbatim>\<open>range(hour, hour+sced_horizon)\<close>,
  with the list built so far:
  \<^verbatim>\<open>
  if t >= 23:
      dispatch = current_ruc_dispatch[(gen_name,23)]
  else:
      dispatch = current_ruc_dispatch[(gen_name,t)]
  market_signals[gen_name].append(dispatch)
  \<close>
\<close>

fun project_loop ::
  "((string \<times> int) \<times> 'v) list \<Rightarrow> string \<Rightarrow> int list \<Rightarrow> 'v list \<Rightarrow> error + 'v list" where
  "project_loop current_ruc_dispatch gen_name [] acc = Inr acc"
| "project_loop current_ruc_dispatch gen_name (t # ts) acc =
     (if t \<ge> 23 then
        (case map_of current_ruc_dispatch (gen_name, 23) of
           None \<Rightarrow> Inl (KeyError (KPair gen_name 23))
         | Some dispatch \<Rightarrow> project_loop current_ruc_dispatch gen_name ts (acc @ [dispatch]))
      else
        (case map_of current_ruc_dispatch (gen_name, t) of
           None \<Rightarrow> Inl (KeyError (KPair gen_name t))
         | Some dispatch \<Rightarrow> project_loop current_ruc_dispatch gen_name ts (acc @ [dispatch])))"

definition assemble_project_tracking_signal ::
  "options \<Rightarrow> 'v simulator \<Rightarrow> int \<Rightarrow> error + 'v signals" where
  "assemble_project_tracking_signal opts simulator h =
     (let gen_name = bidding_generator opts;
          current_ruc_dispatch = thermal_gen_cleared_DA (ruc_market_active simulator)
      in case project_loop current_ruc_dispatch gen_name [h..h + sced_horizon opts - 1] [] of
           Inl e \<Rightarrow> Inl e
         | Inr dispatches \<Rightarrow> Inr [(gen_name, dispatches)])"





subsection \<open>The market and tracking callbacks\<close>

definition get_current_time :: "string \<Rightarrow> ('v, time) action" where
  "get_current_time attr =
     (\<lambda>w. case current_time (sim w) of
            None \<Rightarrow> (Inl (AttributeError attr), w)
          | Some tm \<Rightarrow> (Inr tm, w))"

text \<open>
  \<^verbatim>\<open>bid_into_DAM\<close>. The two methods it calls by their bare names are not bound; the
  statements are kept in the order of the source.
\<close>

definition bid_into_DAM :: "'v env \<Rightarrow> options \<Rightarrow> date \<Rightarrow> int \<Rightarrow> ('v, unit) action" where
  "bid_into_DAM environ opts ruc_date ruc_hour = (\<lambda>w.
     let is_first_day = (current_time (sim w) = None) in
     seq (plugin_object ''bidder'') (\<lambda>b.
     seq (if \<not> is_first_day then
            seq (call_unbound ''project_tracking_trajectory'') (\<lambda>full_projected_trajectory.
            external (Update_model b)
              (\<lambda>cs. update_model environ cs b full_projected_trajectory))
          else ret ()) (\<lambda>_.
     seq (external (Stochastic_bidding b ruc_date)
            (\<lambda>cs. stochastic_bidding environ cs b ruc_date)) (\<lambda>bids.
     seq (if is_first_day then
            seq (set_extensions (\<lambda>ext. ext\<lparr>current_bids := Some (Bids bids)\<rparr>)) (\<lambda>_.
            set_extensions (\<lambda>ext. ext\<lparr>next_bids := Some (Bids bids)\<rparr>))
          else set_extensions (\<lambda>ext. ext\<lparr>next_bids := Some (Bids bids)\<rparr>)) (\<lambda>_.
     call_unbound ''_pass_DA_bid_to_prescient'')))) w)"

definition bid_into_RTM :: "options \<Rightarrow> ('v, unit) action" where
  "bid_into_RTM opts =
     seq (get_current_time ''hour'') (\<lambda>tm.
     seq get_extensions (\<lambda>ext.
     seq (subscript (KStr ''current_bids'') (current_bids ext)) (\<lambda>bids.
     call_unbound ''pass_RT_bid_to_prescient'')))"

definition track_sced_signal :: "'v env \<Rightarrow> options \<Rightarrow> ('v, unit) action" where
  "track_sced_signal environ opts =
     seq (get_current_time ''date'') (\<lambda>tm.
     seq (plugin_object ''tracker'') (\<lambda>tr.
     seq (call_unbound ''assemble_sced_tracking_market_signals'') (\<lambda>market_signals.
     external (Pass_schedule_to_track tr (date tm) (hour tm))
       (\<lambda>cs. pass_schedule_to_track environ cs tr market_signals (date tm) (hour tm)))))"

definition update_observed_thermal_dispatch :: "'v env \<Rightarrow> options \<Rightarrow> ('v, unit) action" where
  "update_observed_thermal_dispatch environ opts =
     seq (plugin_object ''tracker'') (\<lambda>tr.
     let g = bidding_generator opts in
     seq (external (Get_last_delivered_power tr g)
            (\<lambda>cs. get_last_delivered_power environ cs tr g)) (\<lambda>power.
     (\<lambda>w. (Inr (), w\<lparr>observed_thermal_dispatch_levels :=
                        AList.update g power (observed_thermal_dispatch_levels w)\<rparr>))))"

subsection \<open>\<^verbatim>\<open>after_ruc_activation\<close>\<close>

text \<open>
  \<^verbatim>\<open>
  current_bids = simulator.data_manager.extensions['next_bids']
  simulator.data_manager.extensions['current_bids'] = current_bids
  simulator.data_manager.extensions['next_bids'] = None
  \<close>
\<close>

definition after_ruc_activation :: "options \<Rightarrow> ('v, unit) action" where
  "after_ruc_activation opts =
     seq get_extensions (\<lambda>ext.
     seq (subscript (KStr ''next_bids'') (next_bids ext)) (\<lambda>bids.
     seq (set_extensions (\<lambda>ext. ext\<lparr>current_bids := Some bids\<rparr>)) (\<lambda>_.
     set_extensions (\<lambda>ext. ext\<lparr>next_bids := Some NoBids\<rparr>))))"

subsection \<open>\<^verbatim>\<open>write_plugin_results\<close>\<close>

text \<open>
  \<^verbatim>\<open>
  for key, plugins in simulator.data_manager.extensions['plugin_objects'].items():
      plugins.write_results(path = options.output_directory)
  \<close>
\<close>

fun write_results_loop :: "'v env \<Rightarrow> string \<Rightarrow> (string \<times> obj) list \<Rightarrow> ('v, unit) action" where
  "write_results_loop environ path [] = ret ()"
| "write_results_loop environ path ((key, plugins) # rest) =
     seq (external (Write_results plugins path) (\<lambda>cs. write_results environ cs plugins path))
       (\<lambda>_. write_results_loop environ path rest)"

definition write_plugin_results :: "'v env \<Rightarrow> options \<Rightarrow> ('v, unit) action" where
  "write_plugin_results environ opts =
     seq get_extensions (\<lambda>ext.
     seq (subscript (KStr ''plugin_objects'') (plugin_objects ext)) (\<lambda>plugin_dict.
     write_results_loop environ (output_directory opts) plugin_dict))"

subsection \<open>The simulator calling back\<close>

text \<open>A registered callback is a bound method of the coordinator; the simulator calls it
  with the options, itself, and what the hook provides.\<close>

fun run_callback ::
  "'v env \<Rightarrow> coordinator \<Rightarrow> options \<Rightarrow> date \<Rightarrow> int \<Rightarrow> callback \<Rightarrow> ('v, unit) action" where
  "run_callback environ self opts ruc_date ruc_hour Initialize_customized_results =
     initialize_customized_results opts"
| "run_callback environ self opts ruc_date ruc_hour Initialize_bidding_object =
     initialize_bidding_object self opts"
| "run_callback environ self opts ruc_date ruc_hour Initialize_tracking_object =
     initialize_tracking_object self opts"
| "run_callback environ self opts ruc_date ruc_hour Bid_into_DAM =
     bid_into_DAM environ opts ruc_date ruc_hour"
| "run_callback environ self opts ruc_date ruc_hour Bid_into_RTM = bid_into_RTM opts"
| "run_callback environ self opts ruc_date ruc_hour Track_sced_signal =
     track_sced_signal environ opts"
| "run_callback environ self opts ruc_date ruc_hour Update_observed_thermal_dispatch =
     update_observed_thermal_dispatch environ opts"
| "run_callback environ self opts ruc_date ruc_hour After_ruc_activation =
     after_ruc_activation opts"
| "run_callback environ self opts ruc_date ruc_hour Write_plugin_results =
     write_plugin_results environ opts"

text \<open>The callbacks of one hook, called in the order of their registration.\<close>

fun run_callbacks ::
  "'v env \<Rightarrow> coordinator \<Rightarrow> options \<Rightarrow> date \<Rightarrow> int \<Rightarrow> callback list \<Rightarrow> ('v, unit) action" where
  "run_callbacks environ self opts ruc_date ruc_hour [] = ret ()"
| "run_callbacks environ self opts ruc_date ruc_hour (cb # cbs) =
     seq (run_callback environ self opts ruc_date ruc_hour cb)
       (\<lambda>_. run_callbacks environ self opts ruc_date ruc_hour cbs)"

subsection \<open>What the specification says of the assembled signals\<close>

text \<open>
  The signal for time \<open>t\<close> in the words of the specification of
  \<^verbatim>\<open>assemble_project_tracking_signal\<close>: the active RUC dispatch at \<open>(generator, t)\<close> when
  \<open>t < 23\<close>, and the active RUC dispatch at \<open>(generator, 23)\<close> for every \<open>t \<ge> 23\<close>.
\<close>

definition spec_project_signal ::
  "((string \<times> int) \<times> 'v) list \<Rightarrow> string \<Rightarrow> int \<Rightarrow> 'v option" where
  "spec_project_signal current_ruc_dispatch gen_name t =
     (if t < 23 then map_of current_ruc_dispatch (gen_name, t)
      else map_of current_ruc_dispatch (gen_name, 23))"


subsection \<open>Reading registries and worlds\<close>

text \<open>The registrations of callbacks, in order, without the command line options.\<close>

fun registered :: "registry \<Rightarrow> (hook \<times> callback) list" where
  "registered [] = []"
| "registered (Add_custom_commandline_option opt # reg) = registered reg"
| "registered (Register h cb # reg) = (h, cb) # registered reg"

text \<open>The dictionary under \<^verbatim>\<open>'plugin_objects'\<close>, empty when the key is absent.\<close>

definition plugin_dict_of :: "'v world \<Rightarrow> (string \<times> obj) list" where
  "plugin_dict_of w = (case plugin_objects (extensions (sim w)) of None \<Rightarrow> [] | Some d \<Rightarrow> d)"

text \<open>The extensions hold the coordinator's bidder and tracker under their keys.\<close>

definition holds_handles :: "coordinator \<Rightarrow> 'v world \<Rightarrow> bool" where
  "holds_handles self w =
     (map_of (plugin_dict_of w) ''bidder'' = Some (bidder self) \<and>
      map_of (plugin_dict_of w) ''tracker'' = Some (tracker self))"

subsection \<open>A small run\<close>

text \<open>One generator \<^verbatim>\<open>'g'\<close>, a bidder (object 1) and a tracker (object 2) whose calls all
  succeed, and the simulator before its first time step.\<close>

definition example_options :: options where
  "example_options =
     \<lparr>bidding_generator = ''g'', ruc_horizon = 2, sced_horizon = 3, output_directory = ''out''\<rparr>"

definition example_bids :: "int bids" where
  "example_bids = [(0, [(''g'', [(0, 0), (10, 5)])]), (1, [(''g'', [(0, 0), (20, 7)])])]"

definition example_env :: "int env" where
  "example_env =
     \<lparr>update_model = (\<lambda>cs b traj. Inr ()),
      stochastic_bidding = (\<lambda>cs b d. Inr example_bids),
      pass_schedule_to_track = (\<lambda>cs tr signals d h. Inr ()),
      get_last_delivered_power = (\<lambda>cs tr g. Inr 0),
      write_results = (\<lambda>cs x path. Inr ())\<rparr>"

definition example_self :: coordinator where
  "example_self = fst (DoubleLoopCoordinator 1 2 [])"

definition fresh_world :: "int world" where
  "fresh_world =
     \<lparr>sim = \<lparr>current_time = None,
             extensions = \<lparr>customized_results = None, plugin_objects = None,
                           current_bids = None, next_bids = None\<rparr>,
             ruc_market_active = \<lparr>thermal_gen_cleared_DA = [((''g'', 22), 5), ((''g'', 23), 7)]\<rparr>,
             ruc_market_pending = None\<rparr>,
      ruc_instance = [(''g'', [])],
      sced_instance = [(''g'', [(''pg'', TimeSeries [4, 6, 8])])],
      observed_thermal_dispatch_levels = [],
      calls = []\<rparr>"

text \<open>The world once the initialization callbacks have run.\<close>

definition initialized_world :: "int world" where
  "initialized_world =
     fresh_world\<lparr>sim := (sim fresh_world)\<lparr>extensions :=
       \<lparr>customized_results =
          Some [(''Generator'', []), (''Date'', []), (''Hour'', []), (''State'', []),
                (''RUC Schedule'', []), (''SCED Schedule'', []), (''Power Output'', [])],
        plugin_objects = Some [(''bidder'', 1), (''tracker'', 2)],
        current_bids = None, next_bids = None\<rparr>\<rparr>\<rparr>"

text \<open>The same world at hour 22 of a simulated day.\<close>

definition running_world :: "int world" where
  "running_world =
     initialized_world\<lparr>sim := (sim initialized_world)
       \<lparr>current_time := Some \<lparr>date = ''2020-07-10'', hour = 22\<rparr>\<rparr>\<rparr>"

text \<open>The same world with the bids of the day in place.\<close>

definition bidding_world :: "int world" where
  "bidding_world =
     running_world\<lparr>sim := (sim running_world)\<lparr>extensions :=
       (extensions (sim running_world))
         \<lparr>current_bids := Some (Bids example_bids), next_bids := Some (Bids example_bids)\<rparr>\<rparr>\<rparr>"

text \<open>A bidder and a tracker whose solves fail, and whose tracker cannot write its results.\<close>

definition failing_env :: "int env" where
  "failing_env =
     \<lparr>update_model = (\<lambda>cs b traj. Inr ()),
      stochastic_bidding = (\<lambda>cs b d. Inl (External ''solver'')),
      pass_schedule_to_track = (\<lambda>cs tr signals d h. Inr ()),
      get_last_delivered_power = (\<lambda>cs tr g. Inl (External ''solver'')),
      write_results = (\<lambda>cs x path. if x = 2 then Inl (External ''disk'') else Inr ())\<rparr>"

text \<open>The fresh world with an empty \<^verbatim>\<open>'plugin_objects'\<close> dictionary.\<close>

definition bare_world :: "int world" where
  "bare_world =
     fresh_world\<lparr>sim := (sim fresh_world)\<lparr>extensions :=
       (extensions (sim fresh_world))\<lparr>plugin_objects := Some []\<rparr>\<rparr>\<rparr>"

section \<open>Properties\<close>

subsection \<open>Running statements\<close>

lemma ret_apply [simp]: "ret x w = (Inr x, w)"
  by (simp add: ret_def)

lemma raise_apply [simp]: "raise e w = (Inl e, w)"
  by (simp add: raise_def)

lemma seq_ret [simp]: "seq (ret x) f = f x"
  by (simp add: seq_def ret_def)

lemma seq_raise [simp]: "seq (raise e) f = raise e"
  by (simp add: seq_def raise_def)

lemma seq_get_extensions [simp]: "seq get_extensions f w = f (extensions (sim w)) w"
  by (simp add: seq_def get_extensions_def)

lemma set_extensions_apply [simp]:
  "set_extensions g w = (Inr (), w\<lparr>sim := (sim w)\<lparr>extensions := g (extensions (sim w))\<rparr>\<rparr>)"
  by (simp add: set_extensions_def)

lemma seq_set_extensions [simp]:
  "seq (set_extensions g) f w = f () (w\<lparr>sim := (sim w)\<lparr>extensions := g (extensions (sim w))\<rparr>\<rparr>)"
  by (simp add: seq_def set_extensions_def)

lemma subscript_simps [simp]:
  "subscript k None = raise (KeyError k)"
  "subscript k (Some y) = ret y"
  by (simp_all add: subscript_def)

lemma call_unbound_apply [simp]: "call_unbound name w = (Inl (NameError name), w)"
  by (simp add: call_unbound_def)

lemma seq_call_unbound [simp]: "seq (call_unbound name) f = raise (NameError name)"
  by (simp add: call_unbound_def)

lemma external_apply [simp]:
  "external c answer w = (answer (calls w), w\<lparr>calls := calls w @ [c]\<rparr>)"
  by (simp add: external_def)

lemma plugin_object_apply:
  "plugin_object name w =
     (case plugin_objects (extensions (sim w)) of
        None \<Rightarrow> (Inl (KeyError (KStr ''plugin_objects'')), w)
      | Some d \<Rightarrow> (case map_of d name of
                     None \<Rightarrow> (Inl (KeyError (KStr name)), w)
                   | Some x \<Rightarrow> (Inr x, w)))"
  by (simp add: plugin_object_def split: option.splits)

lemma get_current_time_apply:
  "get_current_time a w =
     (case current_time (sim w) of None \<Rightarrow> (Inl (AttributeError a), w) | Some tm \<Rightarrow> (Inr tm, w))"
  by (simp add: get_current_time_def)

text \<open>The names the methods call without \<^verbatim>\<open>self.\<close> are not names of the module.\<close>

lemma bare_names_unbound:
  "''project_tracking_trajectory'' \<notin> set module_names"
  "''_pass_DA_bid_to_prescient'' \<notin> set module_names"
  "''pass_RT_bid_to_prescient'' \<notin> set module_names"
  "''assemble_sced_tracking_market_signals'' \<notin> set module_names"
  by (simp_all add: module_names_def)

subsection \<open>The activation of the next day's bids\<close>

text \<open>
  C1. When the extensions hold a \<^verbatim>\<open>'next_bids'\<close> entry, \<^verbatim>\<open>after_ruc_activation\<close> returns
  normally, \<^verbatim>\<open>'current_bids'\<close> then holds the value that was under \<^verbatim>\<open>'next_bids'\<close>,
  \<^verbatim>\<open>'next_bids'\<close> holds \<^verbatim>\<open>None\<close>, and nothing else in the world has changed.
\<close>

theorem after_ruc_activation_moves_next_bids:
  assumes "next_bids (extensions (sim w)) = Some b"
  shows "after_ruc_activation opts w =
           (Inr (), w\<lparr>sim := (sim w)\<lparr>extensions :=
                        (extensions (sim w))\<lparr>current_bids := Some b, next_bids := Some NoBids\<rparr>\<rparr>\<rparr>)"
  using assms by (simp add: after_ruc_activation_def)

theorem after_ruc_activation_moves_next_bids_witness:
  "after_ruc_activation \<lparr>bidding_generator = ''g'', ruc_horizon = 1, sced_horizon = 1,
       output_directory = ''out''\<rparr>
     \<lparr>sim = \<lparr>current_time = Some \<lparr>date = ''2020-07-10'', hour = 0\<rparr>,
         extensions = \<lparr>customized_results = None, plugin_objects = None,
           current_bids = Some (Bids [(0, [(''g'', [(1::int, 2)])])]),
           next_bids = Some (Bids [(0, [(''g'', [(3, 4)])])])\<rparr>,
         ruc_market_active = \<lparr>thermal_gen_cleared_DA = []\<rparr>, ruc_market_pending = None\<rparr>,
       ruc_instance = [], sced_instance = [], observed_thermal_dispatch_levels = [],
       calls = []\<rparr>
   = (Inr (),
     \<lparr>sim = \<lparr>current_time = Some \<lparr>date = ''2020-07-10'', hour = 0\<rparr>,
         extensions = \<lparr>customized_results = None, plugin_objects = None,
           current_bids = Some (Bids [(0, [(''g'', [(3, 4)])])]),
           next_bids = Some NoBids\<rparr>,
         ruc_market_active = \<lparr>thermal_gen_cleared_DA = []\<rparr>, ruc_market_pending = None\<rparr>,
       ruc_instance = [], sced_instance = [], observed_thermal_dispatch_levels = [],
       calls = []\<rparr>)"
  using after_ruc_activation_moves_next_bids
    [of "\<lparr>sim = \<lparr>current_time = Some \<lparr>date = ''2020-07-10'', hour = 0\<rparr>,
         extensions = \<lparr>customized_results = None, plugin_objects = None,
           current_bids = Some (Bids [(0, [(''g'', [(1::int, 2)])])]),
           next_bids = Some (Bids [(0, [(''g'', [(3, 4)])])])\<rparr>,
         ruc_market_active = \<lparr>thermal_gen_cleared_DA = []\<rparr>, ruc_market_pending = None\<rparr>,
       ruc_instance = [], sced_instance = [], observed_thermal_dispatch_levels = [],
       calls = []\<rparr>" "Bids [(0, [(''g'', [(3, 4)])])]"]
  by simp

subsection \<open>What the market callbacks do\<close>

lemma bid_into_RTM_cases:
  "bid_into_RTM opts w =
     (Inl (case current_time (sim w) of
             None \<Rightarrow> AttributeError ''hour''
           | Some tm \<Rightarrow> (case current_bids (extensions (sim w)) of
                           None \<Rightarrow> KeyError (KStr ''current_bids'')
                         | Some b \<Rightarrow> NameError ''pass_RT_bid_to_prescient'')), w)"
  by (simp add: bid_into_RTM_def seq_def get_current_time_apply get_extensions_def
      split: option.splits)

lemma bid_into_DAM_later_day:
  "current_time (sim w) = Some tm \<Longrightarrow>
   bid_into_DAM environ opts d h w =
     (Inl (case plugin_objects (extensions (sim w)) of
             None \<Rightarrow> KeyError (KStr ''plugin_objects'')
           | Some po \<Rightarrow> (case map_of po ''bidder'' of
                           None \<Rightarrow> KeyError (KStr ''bidder'')
                         | Some b \<Rightarrow> NameError ''project_tracking_trajectory'')), w)"
  by (simp add: bid_into_DAM_def seq_def plugin_object_apply split: option.splits)

lemma bid_into_DAM_first_day:
  "current_time (sim w) = None \<Longrightarrow>
   bid_into_DAM environ opts d h w =
     (case plugin_objects (extensions (sim w)) of
        None \<Rightarrow> (Inl (KeyError (KStr ''plugin_objects'')), w)
      | Some po \<Rightarrow>
         (case map_of po ''bidder'' of
            None \<Rightarrow> (Inl (KeyError (KStr ''bidder'')), w)
          | Some b \<Rightarrow>
             (case stochastic_bidding environ (calls w) b d of
                Inl e \<Rightarrow> (Inl e, w\<lparr>calls := calls w @ [Stochastic_bidding b d]\<rparr>)
              | Inr bids \<Rightarrow>
                 (Inl (NameError ''_pass_DA_bid_to_prescient''),
                  w\<lparr>calls := calls w @ [Stochastic_bidding b d],
                    sim := (sim w)\<lparr>extensions := (extensions (sim w))
                      \<lparr>current_bids := Some (Bids bids), next_bids := Some (Bids bids)\<rparr>\<rparr>\<rparr>))))"
  by (simp add: bid_into_DAM_def seq_def plugin_object_apply split: option.splits sum.splits)

lemma bid_into_DAM_raises: "\<exists>e. fst (bid_into_DAM environ opts d h w) = Inl e"
proof (cases "current_time (sim w)")
  case None
  then show ?thesis by (simp add: bid_into_DAM_first_day split: option.splits sum.splits)
next
  case (Some tm)
  then show ?thesis by (simp add: bid_into_DAM_later_day)
qed

lemma bid_into_DAM_ruc_instance:
  "ruc_instance (snd (bid_into_DAM environ opts d h w)) = ruc_instance w"
proof (cases "current_time (sim w)")
  case None
  then show ?thesis by (simp add: bid_into_DAM_first_day split: option.splits sum.splits)
next
  case (Some tm)
  then show ?thesis by (simp add: bid_into_DAM_later_day)
qed

text \<open>Called as methods, the two functions that pass bids do write the cost curves.\<close>

lemma bid_curves_returns:
  "\<forall>t\<in>set ts. \<exists>by_gen curve. map_of bids t = Some by_gen \<and> map_of by_gen g = Some curve \<Longrightarrow>
   bid_curves bids g ts = Inr (map (\<lambda>t. the (map_of (the (map_of bids t)) g)) ts)"
  by (induction ts) auto

lemma reindexed_upto: "map (\<lambda>t. map f [0..n] ! nat t) [0..n] = map f [0..n]"
  by (rule map_cong) auto

lemma pass_DA_bid_to_prescient_writes:
  assumes "map_of ruc (bidding_generator opts) = Some gen_dict"
    and "\<forall>t\<in>set [0..ruc_horizon opts - 1].
           \<exists>by_gen curve. map_of bids t = Some by_gen \<and>
             map_of by_gen (bidding_generator opts) = Some curve"
  shows "pass_DA_bid_to_prescient opts ruc bids =
           Inr (AList.update (bidding_generator opts)
                 (AList.update ''p_cost''
                    (CostCurveSeries
                       (map (\<lambda>t. the (map_of (the (map_of bids t)) (bidding_generator opts)))
                          [0..ruc_horizon opts - 1]))
                    gen_dict)
                 ruc)"
  using assms(1) bid_curves_returns [OF assms(2)]
  by (simp add: pass_DA_bid_to_prescient_def Let_def reindexed_upto)

lemma pass_RT_bid_to_prescient_writes:
  assumes "map_of sced (bidding_generator opts) = Some gen_dict"
    and "map_of bs h = Some by_gen"
    and "map_of by_gen (bidding_generator opts) = Some curve"
  shows "pass_RT_bid_to_prescient opts sced (Bids bs) h =
           Inr (AList.update (bidding_generator opts)
                 (AList.update ''p_cost'' (CostCurve curve) gen_dict) sced)"
  using assms by (simp add: pass_RT_bid_to_prescient_def Let_def)

text \<open>
  C2. The claim is that every call of \<^verbatim>\<open>bid_into_DAM\<close> ends by writing the generator's
  \<^verbatim>\<open>'p_cost'\<close> in the RUC instance. The code does not: every call raises an exception,
  and the RUC instance is left as it was; on a day after the first no method of the bidder
  is called at all.
\<close>

theorem bid_into_DAM_never_writes_p_cost:
  "(\<exists>e. fst (bid_into_DAM environ opts d h w) = Inl e) \<and>
   ruc_instance (snd (bid_into_DAM environ opts d h w)) = ruc_instance w \<and>
   (current_time (sim w) \<noteq> None \<longrightarrow> calls (snd (bid_into_DAM environ opts d h w)) = calls w)"
proof -
  have "calls (snd (bid_into_DAM environ opts d h w)) = calls w"
    if "current_time (sim w) \<noteq> None"
    using that by (auto simp: bid_into_DAM_later_day)
  with bid_into_DAM_raises [of environ opts d h w]
    bid_into_DAM_ruc_instance [of environ opts d h w]
  show ?thesis by blast
qed

theorem bid_into_DAM_never_writes_p_cost_witness:
  "fst (bid_into_DAM example_env example_options ''2020-07-10'' 0 initialized_world) =
     Inl (NameError ''_pass_DA_bid_to_prescient'') \<and>
   ruc_instance (snd (bid_into_DAM example_env example_options ''2020-07-10'' 0
     initialized_world)) = [(''g'', [])] \<and>
   calls (snd (bid_into_DAM example_env example_options ''2020-07-10'' 0 initialized_world)) =
     [Stochastic_bidding 1 ''2020-07-10''] \<and>
   pass_DA_bid_to_prescient example_options [(''g'', [])] example_bids =
     Inr [(''g'', [(''p_cost'', CostCurveSeries [[(0, 0), (10, 5)], [(0, 0), (20, 7)]])])]"
proof -
  have direct: "pass_DA_bid_to_prescient example_options [(''g'', [])] example_bids =
     Inr [(''g'', [(''p_cost'', CostCurveSeries [[(0, 0), (10, 5)], [(0, 0), (20, 7)]])])]"
    by (simp add: pass_DA_bid_to_prescient_def example_options_def example_bids_def Let_def
        upto.simps)
  have run: "bid_into_DAM example_env example_options ''2020-07-10'' 0 initialized_world =
     (Inl (NameError ''_pass_DA_bid_to_prescient''),
      initialized_world\<lparr>calls := [Stochastic_bidding 1 ''2020-07-10''],
        sim := (sim initialized_world)\<lparr>extensions := (extensions (sim initialized_world))
          \<lparr>current_bids := Some (Bids example_bids), next_bids := Some (Bids example_bids)\<rparr>\<rparr>\<rparr>)"
    by (simp add: bid_into_DAM_first_day initialized_world_def fresh_world_def example_env_def)
  from bid_into_DAM_never_writes_p_cost
    [of example_env example_options "''2020-07-10''" 0 initialized_world]
  have "ruc_instance (snd (bid_into_DAM example_env example_options ''2020-07-10'' 0
     initialized_world)) = ruc_instance initialized_world"
    by blast
  then have "ruc_instance (snd (bid_into_DAM example_env example_options ''2020-07-10'' 0
     initialized_world)) = [(''g'', [])]"
    by (simp add: initialized_world_def fresh_world_def)
  with direct run show ?thesis by simp
qed

text \<open>
  C3. The claim is that \<^verbatim>\<open>bid_into_RTM\<close> pushes the cost curve of the current hour into the
  SCED instance. The code does not: with a current time and with \<^verbatim>\<open>'current_bids'\<close> in
  the extensions, the call raises \<^verbatim>\<open>NameError\<close> and leaves the world, the SCED instance
  with it, as it was.
\<close>

theorem bid_into_RTM_never_writes_p_cost:
  assumes "current_time (sim w) = Some tm"
    and "current_bids (extensions (sim w)) = Some b"
  shows "bid_into_RTM opts w = (Inl (NameError ''pass_RT_bid_to_prescient''), w)"
  using assms by (simp add: bid_into_RTM_cases)

theorem bid_into_RTM_never_writes_p_cost_witness:
  "bid_into_RTM example_options bidding_world =
     (Inl (NameError ''pass_RT_bid_to_prescient''), bidding_world) \<and>
   sced_instance bidding_world = [(''g'', [(''pg'', TimeSeries [4, 6, 8])])] \<and>
   pass_RT_bid_to_prescient example_options (sced_instance bidding_world) (Bids example_bids) 1 =
     Inr [(''g'', [(''pg'', TimeSeries [4, 6, 8]), (''p_cost'', CostCurve [(0, 0), (20, 7)])])]"
proof -
  have tm: "current_time (sim bidding_world) = Some \<lparr>date = ''2020-07-10'', hour = 22\<rparr>"
    by (simp add: bidding_world_def running_world_def)
  have bids: "current_bids (extensions (sim bidding_world)) = Some (Bids example_bids)"
    by (simp add: bidding_world_def)
  have inst: "sced_instance bidding_world = [(''g'', [(''pg'', TimeSeries [4, 6, 8])])]"
    by (simp add: bidding_world_def running_world_def initialized_world_def fresh_world_def)
  have direct: "pass_RT_bid_to_prescient example_options
       [(''g'', [(''pg'', TimeSeries [4, 6, 8])])] (Bids example_bids) 1 =
     Inr [(''g'', [(''pg'', TimeSeries [4, 6, 8]), (''p_cost'', CostCurve [(0, 0), (20, 7)])])]"
    by (simp add: pass_RT_bid_to_prescient_def example_options_def example_bids_def Let_def)
  from bid_into_RTM_never_writes_p_cost [OF tm bids, of example_options] inst direct
  show ?thesis by simp
qed

text \<open>
  C9. On the first day \<^verbatim>\<open>bid_into_DAM\<close> stores the new bids under both \<^verbatim>\<open>'current_bids'\<close>
  and \<^verbatim>\<open>'next_bids'\<close>, as the claim says. On a later day the claim is that the new bids
  are stored under \<^verbatim>\<open>'next_bids'\<close>; the code raises before any bid is made and stores
  nothing.
\<close>

theorem bid_into_DAM_stores_bids_on_first_day_only:
  "(current_time (sim w) = None \<and> map_of (plugin_dict_of w) ''bidder'' = Some b \<and>
      stochastic_bidding environ (calls w) b d = Inr bids \<longrightarrow>
    extensions (sim (snd (bid_into_DAM environ opts d h w))) =
      (extensions (sim w))\<lparr>current_bids := Some (Bids bids), next_bids := Some (Bids bids)\<rparr>) \<and>
   (current_time (sim w) \<noteq> None \<longrightarrow>
    (\<exists>e. bid_into_DAM environ opts d h w = (Inl e, w)))"
  by (auto simp: bid_into_DAM_first_day bid_into_DAM_later_day plugin_dict_of_def
      split: option.splits)

theorem bid_into_DAM_stores_bids_on_first_day_only_witness:
  "bid_into_DAM example_env example_options ''2020-07-11'' 13 bidding_world =
     (Inl (NameError ''project_tracking_trajectory''), bidding_world) \<and>
   extensions (sim (snd (bid_into_DAM example_env example_options ''2020-07-10'' 0
     initialized_world))) =
     (extensions (sim initialized_world))
       \<lparr>current_bids := Some (Bids example_bids), next_bids := Some (Bids example_bids)\<rparr>"
proof -
  have first: "current_time (sim initialized_world) = None \<and>
      map_of (plugin_dict_of initialized_world) ''bidder'' = Some 1 \<and>
      stochastic_bidding example_env (calls initialized_world) 1 ''2020-07-10'' = Inr example_bids"
    by (simp add: initialized_world_def fresh_world_def plugin_dict_of_def example_env_def)
  have later: "current_time (sim bidding_world) \<noteq> None"
    by (simp add: bidding_world_def running_world_def)
  from bid_into_DAM_stores_bids_on_first_day_only
    [of bidding_world 1 example_env "''2020-07-11''" example_bids example_options 13] later
  obtain e where e: "bid_into_DAM example_env example_options ''2020-07-11'' 13 bidding_world =
     (Inl e, bidding_world)"
    by blast
  have "fst (bid_into_DAM example_env example_options ''2020-07-11'' 13 bidding_world) =
     Inl (NameError ''project_tracking_trajectory'')"
    by (simp add: bid_into_DAM_later_day bidding_world_def running_world_def
        initialized_world_def fresh_world_def)
  with e have 1: "bid_into_DAM example_env example_options ''2020-07-11'' 13 bidding_world =
     (Inl (NameError ''project_tracking_trajectory''), bidding_world)"
    by simp
  from bid_into_DAM_stores_bids_on_first_day_only
    [of initialized_world 1 example_env "''2020-07-10''" example_bids example_options 0] first
  have 2: "extensions (sim (snd (bid_into_DAM example_env example_options ''2020-07-10'' 0
     initialized_world))) =
     (extensions (sim initialized_world))
       \<lparr>current_bids := Some (Bids example_bids), next_bids := Some (Bids example_bids)\<rparr>"
    by blast
  from 1 2 show ?thesis by simp
qed

subsection \<open>The assembled signals\<close>

lemma project_loop_returns:
  "(\<forall>t\<in>set ts. spec_project_signal crd g t \<noteq> None) \<Longrightarrow>
   project_loop crd g ts acc = Inr (acc @ map (\<lambda>t. the (spec_project_signal crd g t)) ts)"
  by (induction ts arbitrary: acc) (auto simp: spec_project_signal_def)

lemma project_loop_needs:
  "project_loop crd g ts acc = Inr r \<Longrightarrow> t \<in> set ts \<Longrightarrow> spec_project_signal crd g t \<noteq> None"
proof (induction ts arbitrary: acc)
  case Nil
  then show ?case by simp
next
  case (Cons a ts)
  show ?case
  proof (cases "t = a")
    case True
    with Cons.prems(1) show ?thesis
      by (auto simp: spec_project_signal_def split: if_splits option.splits)
  next
    case False
    with Cons.prems(2) have m: "t \<in> set ts" by simp
    from Cons.prems(1) obtain acc' where "project_loop crd g ts acc' = Inr r"
      by (auto split: if_splits option.splits)
    from Cons.IH [OF this m] show ?thesis .
  qed
qed

lemma upto_nth_member:
  "t \<in> set [a..b] \<Longrightarrow> [a..b] ! nat (t - a) = t \<and> nat (t - a) < length [a..b]"
  by auto




text \<open>
  C10. For every hour \<open>h\<close> and \<^verbatim>\<open>sced_horizon\<close> \<open>H \<ge> 1\<close>: when the active RUC holds a
  dispatch for every time the specification names (\<open>t\<close> itself below 23, hour 23 from
  there on), \<^verbatim>\<open>assemble_project_tracking_signal\<close> returns the mapping from the bidding
  generator to a list of exactly \<open>H\<close> values, whose entry for each \<open>t\<close> in \<open>[h, h+H)\<close> is
  that dispatch; and it returns only then (a dispatch that is missing is a \<^verbatim>\<open>KeyError\<close>).
\<close>

theorem assemble_project_tracking_signal_values:
  assumes "1 \<le> sced_horizon opts"
  shows
   "((\<forall>t\<in>{h..<h + sced_horizon opts}.
        spec_project_signal (thermal_gen_cleared_DA (ruc_market_active simulator))
          (bidding_generator opts) t \<noteq> None) \<longrightarrow>
     (\<exists>vs. assemble_project_tracking_signal opts simulator h = Inr [(bidding_generator opts, vs)] \<and>
        int (length vs) = sced_horizon opts \<and>
        (\<forall>t\<in>{h..<h + sced_horizon opts}.
           spec_project_signal (thermal_gen_cleared_DA (ruc_market_active simulator))
             (bidding_generator opts) t = Some (vs ! nat (t - h))))) \<and>
    ((\<exists>ms. assemble_project_tracking_signal opts simulator h = Inr ms) \<longrightarrow>
     (\<forall>t\<in>{h..<h + sced_horizon opts}.
        spec_project_signal (thermal_gen_cleared_DA (ruc_market_active simulator))
          (bidding_generator opts) t \<noteq> None))"
proof -
  let ?H = "sced_horizon opts"
  let ?crd = "thermal_gen_cleared_DA (ruc_market_active simulator)"
  let ?g = "bidding_generator opts"
  let ?ts = "[h..h + ?H - 1]"
  have range: "set ?ts = {h..<h + ?H}" by auto
  have len: "int (length ?ts) = ?H" using assms by simp
  have A: "\<exists>vs. assemble_project_tracking_signal opts simulator h = Inr [(?g, vs)] \<and>
        int (length vs) = ?H \<and>
        (\<forall>t\<in>{h..<h + ?H}. spec_project_signal ?crd ?g t = Some (vs ! nat (t - h)))"
    if all: "\<forall>t\<in>{h..<h + ?H}. spec_project_signal ?crd ?g t \<noteq> None"
  proof -
    let ?vs = "map (\<lambda>t. the (spec_project_signal ?crd ?g t)) ?ts"
    from all have "project_loop ?crd ?g ?ts [] = Inr ([] @ ?vs)"
      by (intro project_loop_returns) (simp only: range)
    then have 1: "assemble_project_tracking_signal opts simulator h = Inr [(?g, ?vs)]"
      by (simp add: assemble_project_tracking_signal_def Let_def)
    have 2: "int (length ?vs) = ?H" using len by simp
    have 3: "spec_project_signal ?crd ?g t = Some (?vs ! nat (t - h))" if "t \<in> {h..<h + ?H}" for t
    proof -
      from that have m: "t \<in> set ?ts" by simp
      then have "?ts ! nat (t - h) = t" and "nat (t - h) < length ?ts"
        using upto_nth_member [OF m] by simp_all
      then have "?vs ! nat (t - h) = the (spec_project_signal ?crd ?g t)" by simp
      with all that show ?thesis by auto
    qed
    from 1 2 3 show ?thesis by blast
  qed
  have B: "\<forall>t\<in>{h..<h + ?H}. spec_project_signal ?crd ?g t \<noteq> None"
    if "\<exists>ms. assemble_project_tracking_signal opts simulator h = Inr ms"
  proof -
    from that obtain r where "project_loop ?crd ?g ?ts [] = Inr r"
      by (auto simp: assemble_project_tracking_signal_def Let_def split: sum.splits)
    then show ?thesis using project_loop_needs [of ?crd ?g ?ts "[]" r] by (simp only: range) blast
  qed
  from A B show ?thesis by blast
qed

theorem assemble_project_tracking_signal_values_witness:
  "assemble_project_tracking_signal example_options (sim fresh_world) 22 =
     Inr [(''g'', [5, 7, 7])] \<and>
   spec_project_signal (thermal_gen_cleared_DA (ruc_market_active (sim fresh_world))) ''g'' 24 =
     Some 7"
proof -
  have H: "1 \<le> sced_horizon example_options" by (simp add: example_options_def)
  have direct: "assemble_project_tracking_signal example_options (sim fresh_world) 22 =
     Inr [(''g'', [5, 7, 7])]"
    by (simp add: assemble_project_tracking_signal_def example_options_def fresh_world_def
        Let_def upto.simps)
  then have "\<exists>ms. assemble_project_tracking_signal example_options (sim fresh_world) 22 = Inr ms"
    by blast
  with assemble_project_tracking_signal_values [OF H, of 22 "sim fresh_world"]
  have "\<forall>t\<in>{22..<22 + sced_horizon example_options}.
          spec_project_signal (thermal_gen_cleared_DA (ruc_market_active (sim fresh_world)))
            (bidding_generator example_options) t \<noteq> None"
    by blast
  then have "spec_project_signal (thermal_gen_cleared_DA (ruc_market_active (sim fresh_world)))
            ''g'' 24 \<noteq> None"
    by (simp add: example_options_def)
  then have "spec_project_signal (thermal_gen_cleared_DA (ruc_market_active (sim fresh_world)))
            ''g'' 24 = Some 7"
    by (simp add: spec_project_signal_def fresh_world_def)
  with direct show ?thesis by simp
qed



subsection \<open>Registration\<close>

lemma register_callbacks_appends:
  "register_callbacks reg = reg @ register_callbacks []"
  by (simp add: register_callbacks_def register_custom_commandline_options_def
      register_initialization_callbacks_def register_before_ruc_solve_callbacks_def
      register_before_operations_solve_callbacks_def register_after_operations_callbacks_def
      register_update_operations_stats_callbacks_def register_after_ruc_activation_callbacks_def
      register_after_simulation_callback_def)

lemma registered_new:
  "registered (register_callbacks []) =
     [(Initialization, Initialize_customized_results),
      (Initialization, Initialize_bidding_object),
      (Initialization, Initialize_tracking_object),
      (Before_ruc_solve, Bid_into_DAM),
      (Before_operations_solve, Bid_into_RTM),
      (After_operations, Track_sced_signal),
      (Update_operations_stats, Update_observed_thermal_dispatch),
      (After_ruc_activation_hook, After_ruc_activation),
      (After_simulation, Write_plugin_results)]"
  by (simp add: register_callbacks_def register_custom_commandline_options_def
      register_initialization_callbacks_def register_before_ruc_solve_callbacks_def
      register_before_operations_solve_callbacks_def register_after_operations_callbacks_def
      register_update_operations_stats_callbacks_def register_after_ruc_activation_callbacks_def
      register_after_simulation_callback_def)

lemma callbacks_at_registered:
  "callbacks_at h reg = map snd (filter (\<lambda>p. fst p = h) (registered reg))"
  by (induction h reg rule: callbacks_at.induct) auto

lemma initialization_callbacks:
  "callbacks_at Initialization (register_callbacks []) =
     [Initialize_customized_results, Initialize_bidding_object, Initialize_tracking_object]"
  by (simp add: callbacks_at_registered registered_new)

text \<open>
  C5. Constructing a coordinator appends its registrations to the simulator's registry:
  three initialization callbacks, and one callback at each of the hooks before the RUC
  solve, before the operations solve, after operations, update of the operations
  statistics, after the RUC activation and after the simulation. They are nine
  registrations, no two of them the same and no callback registered twice.
\<close>

theorem coordinator_registers_each_callback_once:
  "snd (DoubleLoopCoordinator b t reg) = reg @ register_callbacks [] \<and>
   callbacks_at Initialization (register_callbacks []) =
     [Initialize_customized_results, Initialize_bidding_object, Initialize_tracking_object] \<and>
   callbacks_at Before_ruc_solve (register_callbacks []) = [Bid_into_DAM] \<and>
   callbacks_at Before_operations_solve (register_callbacks []) = [Bid_into_RTM] \<and>
   callbacks_at After_operations (register_callbacks []) = [Track_sced_signal] \<and>
   callbacks_at Update_operations_stats (register_callbacks []) =
     [Update_observed_thermal_dispatch] \<and>
   callbacks_at After_ruc_activation_hook (register_callbacks []) = [After_ruc_activation] \<and>
   callbacks_at After_simulation (register_callbacks []) = [Write_plugin_results] \<and>
   length (registered (register_callbacks [])) = 9 \<and>
   distinct (registered (register_callbacks [])) \<and>
   distinct (map snd (registered (register_callbacks [])))"
  using register_callbacks_appends [of reg]
  by (simp add: DoubleLoopCoordinator_def callbacks_at_registered registered_new)

theorem coordinator_registers_each_callback_once_witness:
  "registered (snd (DoubleLoopCoordinator 1 2 [])) =
     [(Initialization, Initialize_customized_results),
      (Initialization, Initialize_bidding_object),
      (Initialization, Initialize_tracking_object),
      (Before_ruc_solve, Bid_into_DAM),
      (Before_operations_solve, Bid_into_RTM),
      (After_operations, Track_sced_signal),
      (Update_operations_stats, Update_observed_thermal_dispatch),
      (After_ruc_activation_hook, After_ruc_activation),
      (After_simulation, Write_plugin_results)] \<and>
   length (snd (DoubleLoopCoordinator 1 2 [])) = 20"
proof -
  from coordinator_registers_each_callback_once [of 1 2 "[]"]
  have "snd (DoubleLoopCoordinator 1 2 []) = register_callbacks []" by simp
  moreover have "length (register_callbacks []) = 20"
    by (simp add: register_callbacks_def register_custom_commandline_options_def
      register_initialization_callbacks_def register_before_ruc_solve_callbacks_def
      register_before_operations_solve_callbacks_def register_after_operations_callbacks_def
      register_update_operations_stats_callbacks_def register_after_ruc_activation_callbacks_def
      register_after_simulation_callback_def)
  ultimately show ?thesis by (simp add: registered_new)
qed

subsection \<open>The handles of the bidder and of the tracker\<close>

lemma initialize_customized_results_apply:
  "initialize_customized_results opts w =
     (Inr (), w\<lparr>sim := (sim w)\<lparr>extensions := (extensions (sim w))\<lparr>customized_results :=
        Some [(''Generator'', []), (''Date'', []), (''Hour'', []), (''State'', []),
              (''RUC Schedule'', []), (''SCED Schedule'', []), (''Power Output'', [])]\<rparr>\<rparr>\<rparr>)"
  by (simp add: initialize_customized_results_def)

lemma store_plugin_object_apply:
  "store_plugin_object name x w =
     (Inr (), w\<lparr>sim := (sim w)\<lparr>extensions := (extensions (sim w))\<lparr>plugin_objects :=
        Some (AList.update name x (plugin_dict_of w))\<rparr>\<rparr>\<rparr>)"
  by (simp add: store_plugin_object_def plugin_dict_of_def)

lemma run_initialization:
  "run_callbacks environ self opts d h
     [Initialize_customized_results, Initialize_bidding_object, Initialize_tracking_object] w =
   (Inr (), w\<lparr>sim := (sim w)\<lparr>extensions := (extensions (sim w))
      \<lparr>customized_results :=
         Some [(''Generator'', []), (''Date'', []), (''Hour'', []), (''State'', []),
               (''RUC Schedule'', []), (''SCED Schedule'', []), (''Power Output'', [])],
       plugin_objects :=
         Some (AList.update ''tracker'' (tracker self)
                (AList.update ''bidder'' (bidder self) (plugin_dict_of w)))\<rparr>\<rparr>\<rparr>)"
  by (simp add: seq_def initialize_customized_results_apply initialize_bidding_object_def
      initialize_tracking_object_def store_plugin_object_apply plugin_dict_of_def)

lemma write_results_loop_sim:
  "sim (snd (write_results_loop environ path po w)) = sim w"
proof (induction po arbitrary: w)
  case Nil
  then show ?case by simp
next
  case (Cons p po)
  obtain key x where p: "p = (key, x)" by (cases p)
  show ?case using Cons.IH p by (simp add: seq_def split: sum.splits)
qed

lemma callback_keeps_plugin_objects:
  "cb \<noteq> Initialize_bidding_object \<Longrightarrow> cb \<noteq> Initialize_tracking_object \<Longrightarrow>
   plugin_objects (extensions (sim (snd (run_callback environ self opts d h cb w)))) =
   plugin_objects (extensions (sim w))"
proof (cases cb)
  case Initialize_customized_results
  then show ?thesis by (simp add: initialize_customized_results_apply)
next
  case Bid_into_DAM
  show ?thesis
  proof (cases "current_time (sim w)")
    case None
    then show ?thesis using Bid_into_DAM
      by (simp add: bid_into_DAM_first_day split: option.splits sum.splits)
  next
    case (Some tm)
    then show ?thesis using Bid_into_DAM by (simp add: bid_into_DAM_later_day)
  qed
next
  case Bid_into_RTM
  then show ?thesis by (simp add: bid_into_RTM_cases)
next
  case Track_sced_signal
  then show ?thesis
    by (simp add: track_sced_signal_def seq_def get_current_time_apply plugin_object_apply
        split: option.splits)
next
  case Update_observed_thermal_dispatch
  then show ?thesis
    by (simp add: update_observed_thermal_dispatch_def seq_def plugin_object_apply Let_def
        split: option.splits sum.splits)
next
  case After_ruc_activation
  then show ?thesis
    by (cases "next_bids (extensions (sim w))") (simp_all add: after_ruc_activation_def)
next
  case Write_plugin_results
  then show ?thesis
    by (cases "plugin_objects (extensions (sim w))")
       (simp_all add: write_plugin_results_def write_results_loop_sim)
qed simp_all

lemma callback_keeps_handles:
  assumes "holds_handles self w"
  shows "holds_handles self (snd (run_callback environ self opts d h cb w))"
proof (cases "cb = Initialize_bidding_object \<or> cb = Initialize_tracking_object")
  case True
  with assms show ?thesis
    by (auto simp: holds_handles_def plugin_dict_of_def initialize_bidding_object_def
        initialize_tracking_object_def store_plugin_object_def update_conv')
next
  case False
  then have "plugin_dict_of (snd (run_callback environ self opts d h cb w)) = plugin_dict_of w"
    using callback_keeps_plugin_objects [of cb environ self opts d h w]
    by (simp add: plugin_dict_of_def)
  with assms show ?thesis by (simp add: holds_handles_def)
qed

text \<open>
  C7. The initialization callbacks, run in the order of their registration, leave a
  \<^verbatim>\<open>'plugin_objects'\<close> entry that holds the coordinator's bidder under \<^verbatim>\<open>'bidder'\<close> and its
  tracker under \<^verbatim>\<open>'tracker'\<close>: one entry for each key (the keys of the dictionary stay
  distinct), and no other entry when the simulator had no \<^verbatim>\<open>'plugin_objects'\<close> before.
  No other callback changes the \<^verbatim>\<open>'plugin_objects'\<close> entry, and no callback at all
  replaces either handle.
\<close>

theorem initialization_stores_one_bidder_and_one_tracker:
  "(\<exists>w'. run_callbacks environ self opts d h
            (callbacks_at Initialization (register_callbacks [])) w = (Inr (), w') \<and>
      plugin_objects (extensions (sim w')) \<noteq> None \<and>
      holds_handles self w' \<and>
      (distinct (map fst (plugin_dict_of w)) \<longrightarrow> distinct (map fst (plugin_dict_of w'))) \<and>
      (plugin_objects (extensions (sim w)) = None \<longrightarrow>
         plugin_dict_of w' = [(''bidder'', bidder self), (''tracker'', tracker self)])) \<and>
   (\<forall>cb d1 h1 w1. cb \<noteq> Initialize_bidding_object \<and> cb \<noteq> Initialize_tracking_object \<longrightarrow>
      plugin_objects (extensions (sim (snd (run_callback environ self opts d1 h1 cb w1)))) =
      plugin_objects (extensions (sim (w1 :: 'v world)))) \<and>
   (\<forall>cb d1 h1 w1. holds_handles self (w1 :: 'v world) \<longrightarrow>
      holds_handles self (snd (run_callback environ self opts d1 h1 cb w1)))"
proof -
  let ?po = "AList.update ''tracker'' (tracker self)
               (AList.update ''bidder'' (bidder self) (plugin_dict_of w))"
  let ?w' = "w\<lparr>sim := (sim w)\<lparr>extensions := (extensions (sim w))
      \<lparr>customized_results :=
         Some [(''Generator'', []), (''Date'', []), (''Hour'', []), (''State'', []),
               (''RUC Schedule'', []), (''SCED Schedule'', []), (''Power Output'', [])],
       plugin_objects := Some ?po\<rparr>\<rparr>\<rparr>"
  have run: "run_callbacks environ self opts d h
            (callbacks_at Initialization (register_callbacks [])) w = (Inr (), ?w')"
    by (simp only: initialization_callbacks run_initialization)
  have dict: "plugin_dict_of ?w' = ?po" by (simp add: plugin_dict_of_def)
  have some: "plugin_objects (extensions (sim ?w')) \<noteq> None" by simp
  have handles: "holds_handles self ?w'"
    unfolding holds_handles_def dict by (simp add: update_conv')
  have dist: "distinct (map fst (plugin_dict_of ?w'))" if "distinct (map fst (plugin_dict_of w))"
    unfolding dict using that by (intro distinct_update)
  have fresh: "plugin_dict_of ?w' = [(''bidder'', bidder self), (''tracker'', tracker self)]"
    if "plugin_objects (extensions (sim w)) = None"
    unfolding dict using that by (simp add: plugin_dict_of_def)
  have A: "\<exists>w'. run_callbacks environ self opts d h
            (callbacks_at Initialization (register_callbacks [])) w = (Inr (), w') \<and>
      plugin_objects (extensions (sim w')) \<noteq> None \<and>
      holds_handles self w' \<and>
      (distinct (map fst (plugin_dict_of w)) \<longrightarrow> distinct (map fst (plugin_dict_of w'))) \<and>
      (plugin_objects (extensions (sim w)) = None \<longrightarrow>
         plugin_dict_of w' = [(''bidder'', bidder self), (''tracker'', tracker self)])"
  proof (intro exI [of _ ?w'] conjI impI)
    show "run_callbacks environ self opts d h
            (callbacks_at Initialization (register_callbacks [])) w = (Inr (), ?w')"
      by (rule run)
    show "plugin_objects (extensions (sim ?w')) \<noteq> None" by (rule some)
    show "holds_handles self ?w'" by (rule handles)
    show "distinct (map fst (plugin_dict_of ?w'))" if "distinct (map fst (plugin_dict_of w))"
      using that by (rule dist)
    show "plugin_dict_of ?w' = [(''bidder'', bidder self), (''tracker'', tracker self)]"
      if "plugin_objects (extensions (sim w)) = None"
      using that by (rule fresh)
  qed
  have B: "\<forall>cb d1 h1 w1. cb \<noteq> Initialize_bidding_object \<and> cb \<noteq> Initialize_tracking_object \<longrightarrow>
      plugin_objects (extensions (sim (snd (run_callback environ self opts d1 h1 cb w1)))) =
      plugin_objects (extensions (sim (w1 :: 'v world)))"
    by (intro allI impI callback_keeps_plugin_objects) simp_all
  have C: "\<forall>cb d1 h1 w1. holds_handles self (w1 :: 'v world) \<longrightarrow>
      holds_handles self (snd (run_callback environ self opts d1 h1 cb w1))"
    by (intro allI impI callback_keeps_handles)
  show ?thesis
    by (rule conjI [OF A conjI [OF B C]])
qed

theorem initialization_stores_one_bidder_and_one_tracker_witness:
  "run_callbacks example_env example_self example_options ''2020-07-10'' 0
     (callbacks_at Initialization (snd (DoubleLoopCoordinator 1 2 []))) fresh_world =
     (Inr (), initialized_world) \<and>
   holds_handles example_self initialized_world \<and>
   holds_handles example_self
     (snd (run_callback example_env example_self example_options ''2020-07-10'' 0 Bid_into_DAM
        initialized_world))"
proof -
  have run: "run_callbacks example_env example_self example_options ''2020-07-10'' 0
     (callbacks_at Initialization (snd (DoubleLoopCoordinator 1 2 []))) fresh_world =
     (Inr (), initialized_world)"
    by (simp only: DoubleLoopCoordinator_def snd_conv initialization_callbacks
          run_initialization)
       (simp add: initialized_world_def fresh_world_def plugin_dict_of_def example_self_def
          DoubleLoopCoordinator_def)
  have held: "holds_handles example_self initialized_world"
    by (simp add: holds_handles_def plugin_dict_of_def initialized_world_def fresh_world_def
        example_self_def DoubleLoopCoordinator_def)
  from initialization_stores_one_bidder_and_one_tracker
    [of example_env example_self example_options "''2020-07-10''" 0 fresh_world] held
  have "holds_handles example_self
     (snd (run_callback example_env example_self example_options ''2020-07-10'' 0 Bid_into_DAM
        initialized_world))"
    by blast
  with run held show ?thesis by simp
qed

subsection \<open>Writing the results\<close>

lemma write_results_loop_returns:
  "fst (write_results_loop environ path po w) = Inr () \<Longrightarrow>
   snd (write_results_loop environ path po w) =
     w\<lparr>calls := calls w @ map (\<lambda>p. Write_results (snd p) path) po\<rparr>"
proof (induction po arbitrary: w)
  case Nil
  then show ?case by simp
next
  case (Cons p po)
  obtain key x where p: "p = (key, x)" by (cases p)
  let ?w' = "w\<lparr>calls := calls w @ [Write_results x path]\<rparr>"
  from Cons.prems p have ok: "write_results environ (calls w) x path = Inr ()"
    by (auto simp: seq_def split: sum.splits)
  then have step: "write_results_loop environ path (p # po) w = write_results_loop environ path po ?w'"
    using p by (simp add: seq_def)
  with Cons.prems have "fst (write_results_loop environ path po ?w') = Inr ()" by simp
  from Cons.IH [OF this] step p show ?case by simp
qed

lemma write_results_loop_succeeds:
  "\<forall>cs x. write_results environ cs x path = Inr () \<Longrightarrow>
   fst (write_results_loop environ path po w) = Inr ()"
proof (induction po arbitrary: w)
  case Nil
  then show ?case by simp
next
  case (Cons p po)
  obtain key x where p: "p = (key, x)" by (cases p)
  from Cons.prems have "write_results environ (calls w) x path = Inr ()" by simp
  with p Cons.IH [OF Cons.prems] show ?case by (simp add: seq_def)
qed

text \<open>
  C8. With a \<^verbatim>\<open>'plugin_objects'\<close> entry in the extensions, a call of
  \<^verbatim>\<open>write_plugin_results\<close> that returns has called \<^verbatim>\<open>write_results\<close> with the path
  \<^verbatim>\<open>options.output_directory\<close> on every object of the entry, once each and in the order
  of the entry, and has changed nothing else; and it returns whenever those calls do.
\<close>

theorem write_plugin_results_calls_every_object:
  assumes "plugin_objects (extensions (sim w)) = Some po"
  shows
   "(fst (write_plugin_results environ opts w) = Inr () \<longrightarrow>
       snd (write_plugin_results environ opts w) =
         w\<lparr>calls := calls w @ map (\<lambda>p. Write_results (snd p) (output_directory opts)) po\<rparr>) \<and>
    ((\<forall>cs x. write_results environ cs x (output_directory opts) = Inr ()) \<longrightarrow>
       fst (write_plugin_results environ opts w) = Inr ())"
proof -
  have eq: "write_plugin_results environ opts w =
            write_results_loop environ (output_directory opts) po w"
    using assms by (simp add: write_plugin_results_def)
  show ?thesis
    unfolding eq
    using write_results_loop_returns [of environ "output_directory opts" po w]
      write_results_loop_succeeds [of environ "output_directory opts" po w]
    by blast
qed

theorem write_plugin_results_calls_every_object_witness:
  "write_plugin_results example_env example_options initialized_world =
     (Inr (), initialized_world\<lparr>calls := [Write_results 1 ''out'', Write_results 2 ''out'']\<rparr>)"
proof -
  have po: "plugin_objects (extensions (sim initialized_world)) =
              Some [(''bidder'', 1), (''tracker'', 2)]"
    by (simp add: initialized_world_def)
  have ok: "\<forall>cs x. write_results example_env cs x (output_directory example_options) = Inr ()"
    by (simp add: example_env_def)
  from write_plugin_results_calls_every_object [OF po, of example_env example_options] ok
  have "fst (write_plugin_results example_env example_options initialized_world) = Inr ()"
    and "snd (write_plugin_results example_env example_options initialized_world) =
         initialized_world\<lparr>calls := calls initialized_world @
           map (\<lambda>p. Write_results (snd p) (output_directory example_options))
             [(''bidder'', 1), (''tracker'', 2)]\<rparr>"
    by blast+
  then show ?thesis
    by (simp add: prod_eq_iff initialized_world_def fresh_world_def example_options_def)
qed

subsection \<open>Failures propagate\<close>

lemma after_ruc_activation_missing:
  "next_bids (extensions (sim w)) = None \<Longrightarrow>
   after_ruc_activation opts w = (Inl (KeyError (KStr ''next_bids'')), w)"
  by (simp add: after_ruc_activation_def)

lemma track_sced_signal_cases:
  "track_sced_signal environ opts w =
     (Inl (case current_time (sim w) of
             None \<Rightarrow> AttributeError ''date''
           | Some tm \<Rightarrow>
               (case plugin_objects (extensions (sim w)) of
                  None \<Rightarrow> KeyError (KStr ''plugin_objects'')
                | Some po \<Rightarrow>
                    (case map_of po ''tracker'' of
                       None \<Rightarrow> KeyError (KStr ''tracker'')
                     | Some tr \<Rightarrow> NameError ''assemble_sced_tracking_market_signals''))), w)"
  by (simp add: track_sced_signal_def seq_def get_current_time_apply plugin_object_apply
      split: option.splits)

lemma update_observed_thermal_dispatch_cases:
  "update_observed_thermal_dispatch environ opts w =
     (case plugin_objects (extensions (sim w)) of
        None \<Rightarrow> (Inl (KeyError (KStr ''plugin_objects'')), w)
      | Some po \<Rightarrow>
          (case map_of po ''tracker'' of
             None \<Rightarrow> (Inl (KeyError (KStr ''tracker'')), w)
           | Some tr \<Rightarrow>
               (case get_last_delivered_power environ (calls w) tr (bidding_generator opts) of
                  Inl e \<Rightarrow>
                    (Inl e, w\<lparr>calls := calls w @
                               [Get_last_delivered_power tr (bidding_generator opts)]\<rparr>)
                | Inr v \<Rightarrow>
                    (Inr (), w\<lparr>calls := calls w @
                                 [Get_last_delivered_power tr (bidding_generator opts)],
                               observed_thermal_dispatch_levels :=
                                 AList.update (bidding_generator opts) v
                                   (observed_thermal_dispatch_levels w)\<rparr>))))"
  by (simp add: update_observed_thermal_dispatch_def seq_def plugin_object_apply Let_def
      split: option.splits sum.splits)

lemma write_results_loop_fails:
  assumes "\<forall>i<length pre. write_results environ
             (calls w @ map (\<lambda>p. Write_results (snd p) path) (take i pre)) (snd (pre ! i)) path
           = Inr ()"
    and "write_results environ (calls w @ map (\<lambda>p. Write_results (snd p) path) pre) x path = Inl e"
  shows "write_results_loop environ path (pre @ (key, x) # rest) w =
           (Inl e, w\<lparr>calls := calls w @ map (\<lambda>p. Write_results (snd p) path) pre @
                                [Write_results x path]\<rparr>)"
  using assms
proof (induction pre arbitrary: w)
  case Nil
  then show ?case by (simp add: seq_def)
next
  case (Cons p pre)
  obtain k y where p: "p = (k, y)" by (cases p)
  let ?w' = "w\<lparr>calls := calls w @ [Write_results y path]\<rparr>"
  from Cons.prems(1) p have first: "write_results environ (calls w) y path = Inr ()"
    by fastforce
  have ok: "\<forall>i<length pre. write_results environ
             (calls ?w' @ map (\<lambda>p. Write_results (snd p) path) (take i pre)) (snd (pre ! i)) path
           = Inr ()"
  proof (intro allI impI)
    fix i assume "i < length pre"
    then have "Suc i < length (p # pre)" by simp
    with Cons.prems(1) have "write_results environ
        (calls w @ map (\<lambda>p. Write_results (snd p) path) (take (Suc i) (p # pre)))
        (snd ((p # pre) ! Suc i)) path = Inr ()"
      by blast
    with p show "write_results environ
        (calls ?w' @ map (\<lambda>p. Write_results (snd p) path) (take i pre)) (snd (pre ! i)) path
        = Inr ()"
      by simp
  qed
  from Cons.prems(2) p
  have fail: "write_results environ (calls ?w' @ map (\<lambda>p. Write_results (snd p) path) pre) x path
              = Inl e"
    by simp
  from Cons.IH [OF ok fail] first p show ?case by (simp add: seq_def)
qed

text \<open>
  C6, as stated: whenever the extensions lack \<^verbatim>\<open>'current_bids'\<close>, \<^verbatim>\<open>bid_into_RTM\<close> raises a
  missing-key error. Before the first time step the simulator has no current time, and
  reading its hour fails first, with another exception.
\<close>

theorem bid_into_RTM_missing_key_counterexample:
  "current_bids (extensions (sim fresh_world)) = None \<and>
   bid_into_RTM example_options fresh_world = (Inl (AttributeError ''hour''), fresh_world) \<and>
   fst (bid_into_RTM example_options fresh_world) \<noteq> Inl (KeyError (KStr ''current_bids''))"
  by (simp add: bid_into_RTM_cases fresh_world_def)

text \<open>
  C6, amended. No callback of the coordinator catches or recovers from a failure: a
  dictionary key that is missing, a current time that is missing, a method name that is
  not bound and an exception raised by a method of the bidder or of the tracker each end
  the callback with that exception, and what the callback wrote before it stays written.
  In particular, whenever the extensions lack \<^verbatim>\<open>'current_bids'\<close>, \<^verbatim>\<open>bid_into_RTM\<close> raises an
  exception and leaves the extensions and the rest of the world unchanged: the exception
  is the missing-key error when the simulator has a current time, and an attribute error
  when it has none.
\<close>

theorem callbacks_propagate_failures:
  "(current_bids (extensions (sim w)) = None \<longrightarrow>
      bid_into_RTM opts w =
        (Inl (case current_time (sim w) of
                None \<Rightarrow> AttributeError ''hour''
              | Some tm \<Rightarrow> KeyError (KStr ''current_bids'')), w)) \<and>
   (next_bids (extensions (sim w)) = None \<longrightarrow>
      after_ruc_activation opts w = (Inl (KeyError (KStr ''next_bids'')), w)) \<and>
   track_sced_signal environ opts w =
     (Inl (case current_time (sim w) of
             None \<Rightarrow> AttributeError ''date''
           | Some tm \<Rightarrow>
               (case plugin_objects (extensions (sim w)) of
                  None \<Rightarrow> KeyError (KStr ''plugin_objects'')
                | Some po \<Rightarrow>
                    (case map_of po ''tracker'' of
                       None \<Rightarrow> KeyError (KStr ''tracker'')
                     | Some tr \<Rightarrow> NameError ''assemble_sced_tracking_market_signals''))), w) \<and>
   (plugin_objects (extensions (sim w)) = None \<longrightarrow>
      bid_into_DAM environ opts d h w = (Inl (KeyError (KStr ''plugin_objects'')), w) \<and>
      update_observed_thermal_dispatch environ opts w =
        (Inl (KeyError (KStr ''plugin_objects'')), w) \<and>
      write_plugin_results environ opts w = (Inl (KeyError (KStr ''plugin_objects'')), w)) \<and>
   (\<forall>po. plugin_objects (extensions (sim w)) = Some po \<and> map_of po ''bidder'' = None \<longrightarrow>
      bid_into_DAM environ opts d h w = (Inl (KeyError (KStr ''bidder'')), w)) \<and>
   (\<forall>po. plugin_objects (extensions (sim w)) = Some po \<and> map_of po ''tracker'' = None \<longrightarrow>
      update_observed_thermal_dispatch environ opts w = (Inl (KeyError (KStr ''tracker'')), w)) \<and>
   (\<forall>b e. current_time (sim w) = None \<and> map_of (plugin_dict_of w) ''bidder'' = Some b \<and>
        stochastic_bidding environ (calls w) b d = Inl e \<longrightarrow>
      bid_into_DAM environ opts d h w =
        (Inl e, w\<lparr>calls := calls w @ [Stochastic_bidding b d]\<rparr>)) \<and>
   (\<forall>tr e. map_of (plugin_dict_of w) ''tracker'' = Some tr \<and>
        get_last_delivered_power environ (calls w) tr (bidding_generator opts) = Inl e \<longrightarrow>
      update_observed_thermal_dispatch environ opts w =
        (Inl e, w\<lparr>calls := calls w @
                   [Get_last_delivered_power tr (bidding_generator opts)]\<rparr>)) \<and>
   (\<forall>pre key x rest e.
      plugin_objects (extensions (sim w)) = Some (pre @ (key, x) # rest) \<and>
      (\<forall>i<length pre. write_results environ
          (calls w @ map (\<lambda>p. Write_results (snd p) (output_directory opts)) (take i pre))
          (snd (pre ! i)) (output_directory opts) = Inr ()) \<and>
      write_results environ
        (calls w @ map (\<lambda>p. Write_results (snd p) (output_directory opts)) pre)
        x (output_directory opts) = Inl e \<longrightarrow>
      write_plugin_results environ opts w =
        (Inl e, w\<lparr>calls := calls w @
                   map (\<lambda>p. Write_results (snd p) (output_directory opts)) pre @
                   [Write_results x (output_directory opts)]\<rparr>)) \<and>
   (\<forall>tm b. current_time (sim w) = Some tm \<and> map_of (plugin_dict_of w) ''bidder'' = Some b \<longrightarrow>
      bid_into_DAM environ opts d h w = (Inl (NameError ''project_tracking_trajectory''), w)) \<and>
   (\<forall>b bids. current_time (sim w) = None \<and> map_of (plugin_dict_of w) ''bidder'' = Some b \<and>
        stochastic_bidding environ (calls w) b d = Inr bids \<longrightarrow>
      bid_into_DAM environ opts d h w =
        (Inl (NameError ''_pass_DA_bid_to_prescient''),
         w\<lparr>calls := calls w @ [Stochastic_bidding b d],
           sim := (sim w)\<lparr>extensions := (extensions (sim w))
             \<lparr>current_bids := Some (Bids bids), next_bids := Some (Bids bids)\<rparr>\<rparr>\<rparr>)) \<and>
   (\<forall>b. current_bids (extensions (sim w)) = Some b \<longrightarrow>
      bid_into_RTM opts w =
        (Inl (case current_time (sim w) of
                None \<Rightarrow> AttributeError ''hour''
              | Some tm \<Rightarrow> NameError ''pass_RT_bid_to_prescient''), w))"
proof (intro conjI allI impI)
  show "bid_into_RTM opts w =
        (Inl (case current_time (sim w) of
                None \<Rightarrow> AttributeError ''hour''
              | Some tm \<Rightarrow> KeyError (KStr ''current_bids'')), w)"
    if "current_bids (extensions (sim w)) = None"
    using that by (simp add: bid_into_RTM_cases split: option.splits)
  show "after_ruc_activation opts w = (Inl (KeyError (KStr ''next_bids'')), w)"
    if "next_bids (extensions (sim w)) = None"
    using that by (rule after_ruc_activation_missing)
  show "track_sced_signal environ opts w =
     (Inl (case current_time (sim w) of
             None \<Rightarrow> AttributeError ''date''
           | Some tm \<Rightarrow>
               (case plugin_objects (extensions (sim w)) of
                  None \<Rightarrow> KeyError (KStr ''plugin_objects'')
                | Some po \<Rightarrow>
                    (case map_of po ''tracker'' of
                       None \<Rightarrow> KeyError (KStr ''tracker'')
                     | Some tr \<Rightarrow> NameError ''assemble_sced_tracking_market_signals''))), w)"
    by (rule track_sced_signal_cases)
  show "bid_into_DAM environ opts d h w = (Inl (KeyError (KStr ''plugin_objects'')), w)"
    if "plugin_objects (extensions (sim w)) = None"
    using that
    by (cases "current_time (sim w)") (simp_all add: bid_into_DAM_first_day bid_into_DAM_later_day)
  show "update_observed_thermal_dispatch environ opts w =
        (Inl (KeyError (KStr ''plugin_objects'')), w)"
    if "plugin_objects (extensions (sim w)) = None"
    using that by (simp add: update_observed_thermal_dispatch_cases)
  show "write_plugin_results environ opts w = (Inl (KeyError (KStr ''plugin_objects'')), w)"
    if "plugin_objects (extensions (sim w)) = None"
    using that by (simp add: write_plugin_results_def)
  show "bid_into_DAM environ opts d h w = (Inl (KeyError (KStr ''bidder'')), w)"
    if "plugin_objects (extensions (sim w)) = Some po \<and> map_of po ''bidder'' = None" for po
    using that
    by (cases "current_time (sim w)") (simp_all add: bid_into_DAM_first_day bid_into_DAM_later_day)
  show "update_observed_thermal_dispatch environ opts w = (Inl (KeyError (KStr ''tracker'')), w)"
    if "plugin_objects (extensions (sim w)) = Some po \<and> map_of po ''tracker'' = None" for po
    using that by (simp add: update_observed_thermal_dispatch_cases)
  show "bid_into_DAM environ opts d h w =
        (Inl e, w\<lparr>calls := calls w @ [Stochastic_bidding b d]\<rparr>)"
    if "current_time (sim w) = None \<and> map_of (plugin_dict_of w) ''bidder'' = Some b \<and>
        stochastic_bidding environ (calls w) b d = Inl e" for b e
    using that
    by (auto simp: bid_into_DAM_first_day plugin_dict_of_def split: option.splits)
  show "update_observed_thermal_dispatch environ opts w =
        (Inl e, w\<lparr>calls := calls w @
                   [Get_last_delivered_power tr (bidding_generator opts)]\<rparr>)"
    if "map_of (plugin_dict_of w) ''tracker'' = Some tr \<and>
        get_last_delivered_power environ (calls w) tr (bidding_generator opts) = Inl e" for tr e
    using that
    by (auto simp: update_observed_thermal_dispatch_cases plugin_dict_of_def split: option.splits)
  show "write_plugin_results environ opts w =
        (Inl e, w\<lparr>calls := calls w @
                   map (\<lambda>p. Write_results (snd p) (output_directory opts)) pre @
                   [Write_results x (output_directory opts)]\<rparr>)"
    if "plugin_objects (extensions (sim w)) = Some (pre @ (key, x) # rest) \<and>
      (\<forall>i<length pre. write_results environ
          (calls w @ map (\<lambda>p. Write_results (snd p) (output_directory opts)) (take i pre))
          (snd (pre ! i)) (output_directory opts) = Inr ()) \<and>
      write_results environ
        (calls w @ map (\<lambda>p. Write_results (snd p) (output_directory opts)) pre)
        x (output_directory opts) = Inl e" for pre key x rest e
  proof -
    from that have "write_plugin_results environ opts w =
        write_results_loop environ (output_directory opts) (pre @ (key, x) # rest) w"
      by (simp add: write_plugin_results_def)
    also from that have "\<dots> = (Inl e, w\<lparr>calls := calls w @
                   map (\<lambda>p. Write_results (snd p) (output_directory opts)) pre @
                   [Write_results x (output_directory opts)]\<rparr>)"
      by (intro write_results_loop_fails) blast+
    finally show ?thesis .
  qed
  show "bid_into_DAM environ opts d h w = (Inl (NameError ''project_tracking_trajectory''), w)"
    if "current_time (sim w) = Some tm \<and> map_of (plugin_dict_of w) ''bidder'' = Some b" for tm b
    using that
    by (auto simp: bid_into_DAM_later_day plugin_dict_of_def split: option.splits)
  show "bid_into_DAM environ opts d h w =
        (Inl (NameError ''_pass_DA_bid_to_prescient''),
         w\<lparr>calls := calls w @ [Stochastic_bidding b d],
           sim := (sim w)\<lparr>extensions := (extensions (sim w))
             \<lparr>current_bids := Some (Bids bids), next_bids := Some (Bids bids)\<rparr>\<rparr>\<rparr>)"
    if "current_time (sim w) = None \<and> map_of (plugin_dict_of w) ''bidder'' = Some b \<and>
        stochastic_bidding environ (calls w) b d = Inr bids" for b bids
    using that
    by (auto simp: bid_into_DAM_first_day plugin_dict_of_def split: option.splits)
  show "bid_into_RTM opts w =
        (Inl (case current_time (sim w) of
                None \<Rightarrow> AttributeError ''hour''
              | Some tm \<Rightarrow> NameError ''pass_RT_bid_to_prescient''), w)"
    if "current_bids (extensions (sim w)) = Some b" for b
    using that by (simp add: bid_into_RTM_cases split: option.splits)
qed


theorem callbacks_propagate_failures_witness:
  "bid_into_RTM example_options running_world =
     (Inl (KeyError (KStr ''current_bids'')), running_world) \<and>
   after_ruc_activation example_options running_world =
     (Inl (KeyError (KStr ''next_bids'')), running_world) \<and>
   track_sced_signal example_env example_options fresh_world =
     (Inl (AttributeError ''date''), fresh_world) \<and>
   bid_into_DAM example_env example_options ''2020-07-10'' 0 fresh_world =
     (Inl (KeyError (KStr ''plugin_objects'')), fresh_world) \<and>
   bid_into_DAM example_env example_options ''2020-07-10'' 0 bare_world =
     (Inl (KeyError (KStr ''bidder'')), bare_world) \<and>
   update_observed_thermal_dispatch example_env example_options bare_world =
     (Inl (KeyError (KStr ''tracker'')), bare_world) \<and>
   bid_into_DAM failing_env example_options ''2020-07-10'' 0 initialized_world =
     (Inl (External ''solver''),
      initialized_world\<lparr>calls := [Stochastic_bidding 1 ''2020-07-10'']\<rparr>) \<and>
   update_observed_thermal_dispatch failing_env example_options initialized_world =
     (Inl (External ''solver''),
      initialized_world\<lparr>calls := [Get_last_delivered_power 2 ''g'']\<rparr>) \<and>
   write_plugin_results failing_env example_options initialized_world =
     (Inl (External ''disk''),
      initialized_world\<lparr>calls := [Write_results 1 ''out'', Write_results 2 ''out'']\<rparr>) \<and>
   bid_into_DAM example_env example_options ''2020-07-10'' 0 bidding_world =
     (Inl (NameError ''project_tracking_trajectory''), bidding_world) \<and>
   bid_into_RTM example_options bidding_world =
     (Inl (NameError ''pass_RT_bid_to_prescient''), bidding_world) \<and>
   fst (bid_into_DAM example_env example_options ''2020-07-10'' 0 initialized_world) =
     Inl (NameError ''_pass_DA_bid_to_prescient'')"
proof -
  note running = callbacks_propagate_failures
    [of running_world example_options example_env "''2020-07-10''" 0]
  note fresh = callbacks_propagate_failures
    [of fresh_world example_options example_env "''2020-07-10''" 0]
  note bare = callbacks_propagate_failures
    [of bare_world example_options example_env "''2020-07-10''" 0]
  note failing = callbacks_propagate_failures
    [of initialized_world example_options failing_env "''2020-07-10''" 0]
  have no_bids: "current_bids (extensions (sim running_world)) = None"
    "next_bids (extensions (sim running_world)) = None"
    by (simp_all add: running_world_def initialized_world_def)
  have tm: "current_time (sim running_world) = Some \<lparr>date = ''2020-07-10'', hour = 22\<rparr>"
    by (simp add: running_world_def)
  from running [THEN conjunct1, THEN mp, OF no_bids(1)] tm
  have 1: "bid_into_RTM example_options running_world =
     (Inl (KeyError (KStr ''current_bids'')), running_world)"
    by simp
  from running [THEN conjunct2, THEN conjunct1, THEN mp, OF no_bids(2)]
  have 2: "after_ruc_activation example_options running_world =
     (Inl (KeyError (KStr ''next_bids'')), running_world)" .
  have no_time: "current_time (sim fresh_world) = None" by (simp add: fresh_world_def)
  have no_plugins: "plugin_objects (extensions (sim fresh_world)) = None"
    by (simp add: fresh_world_def)
  from fresh [THEN conjunct2, THEN conjunct2, THEN conjunct1] no_time
  have 3: "track_sced_signal example_env example_options fresh_world =
     (Inl (AttributeError ''date''), fresh_world)"
    by simp
  from fresh [THEN conjunct2, THEN conjunct2, THEN conjunct2, THEN conjunct1, THEN mp,
    OF no_plugins]
  have 4: "bid_into_DAM example_env example_options ''2020-07-10'' 0 fresh_world =
     (Inl (KeyError (KStr ''plugin_objects'')), fresh_world)"
    by simp
  have empty: "plugin_objects (extensions (sim bare_world)) = Some [] \<and> map_of [] ''bidder'' = None"
    "plugin_objects (extensions (sim bare_world)) = Some [] \<and> map_of [] ''tracker'' = None"
    by (simp_all add: bare_world_def)
  from bare [THEN conjunct2, THEN conjunct2, THEN conjunct2, THEN conjunct2, THEN conjunct1,
    THEN spec, THEN mp, OF empty(1)]
  have 5: "bid_into_DAM example_env example_options ''2020-07-10'' 0 bare_world =
     (Inl (KeyError (KStr ''bidder'')), bare_world)" .
  from bare [THEN conjunct2, THEN conjunct2, THEN conjunct2, THEN conjunct2, THEN conjunct2,
    THEN conjunct1, THEN spec, THEN mp, OF empty(2)]
  have 6: "update_observed_thermal_dispatch example_env example_options bare_world =
     (Inl (KeyError (KStr ''tracker'')), bare_world)" .
  have bid: "current_time (sim initialized_world) = None \<and>
      map_of (plugin_dict_of initialized_world) ''bidder'' = Some 1 \<and>
      stochastic_bidding failing_env (calls initialized_world) 1 ''2020-07-10'' =
        Inl (External ''solver'')"
    by (simp add: initialized_world_def fresh_world_def plugin_dict_of_def failing_env_def)
  from failing [THEN conjunct2, THEN conjunct2, THEN conjunct2, THEN conjunct2, THEN conjunct2,
    THEN conjunct2, THEN conjunct1, THEN spec, THEN spec, THEN mp, OF bid]
  have 7: "bid_into_DAM failing_env example_options ''2020-07-10'' 0 initialized_world =
     (Inl (External ''solver''),
      initialized_world\<lparr>calls := [Stochastic_bidding 1 ''2020-07-10'']\<rparr>)"
    by (simp add: initialized_world_def fresh_world_def)
  have pow: "map_of (plugin_dict_of initialized_world) ''tracker'' = Some 2 \<and>
      get_last_delivered_power failing_env (calls initialized_world) 2
        (bidding_generator example_options) = Inl (External ''solver'')"
    by (simp add: initialized_world_def fresh_world_def plugin_dict_of_def failing_env_def)
  from failing [THEN conjunct2, THEN conjunct2, THEN conjunct2, THEN conjunct2, THEN conjunct2,
    THEN conjunct2, THEN conjunct2, THEN conjunct1, THEN spec, THEN spec, THEN mp, OF pow]
  have 8: "update_observed_thermal_dispatch failing_env example_options initialized_world =
     (Inl (External ''solver''),
      initialized_world\<lparr>calls := [Get_last_delivered_power 2 ''g'']\<rparr>)"
    by (simp add: initialized_world_def fresh_world_def example_options_def)
  have wr: "plugin_objects (extensions (sim initialized_world)) =
        Some ([(''bidder'', 1)] @ (''tracker'', 2) # []) \<and>
      (\<forall>i<length [(''bidder'', 1::nat)]. write_results failing_env
          (calls initialized_world @
             map (\<lambda>p. Write_results (snd p) (output_directory example_options))
               (take i [(''bidder'', 1)]))
          (snd ([(''bidder'', 1)] ! i)) (output_directory example_options) = Inr ()) \<and>
      write_results failing_env
        (calls initialized_world @
           map (\<lambda>p. Write_results (snd p) (output_directory example_options)) [(''bidder'', 1)])
        2 (output_directory example_options) = Inl (External ''disk'')"
    by (simp add: initialized_world_def fresh_world_def failing_env_def)
  from failing [THEN conjunct2, THEN conjunct2, THEN conjunct2, THEN conjunct2, THEN conjunct2,
    THEN conjunct2, THEN conjunct2, THEN conjunct2, THEN conjunct1, THEN spec, THEN spec,
    THEN spec, THEN spec, THEN spec, THEN mp, OF wr]
  have 9: "write_plugin_results failing_env example_options initialized_world =
     (Inl (External ''disk''),
      initialized_world\<lparr>calls := [Write_results 1 ''out'', Write_results 2 ''out'']\<rparr>)"
    by (simp add: initialized_world_def fresh_world_def example_options_def)
  note bidding = callbacks_propagate_failures
    [of bidding_world example_options example_env "''2020-07-10''" 0]
  note first_day = callbacks_propagate_failures
    [of initialized_world example_options example_env "''2020-07-10''" 0]
  have later: "current_time (sim bidding_world) = Some \<lparr>date = ''2020-07-10'', hour = 22\<rparr> \<and>
      map_of (plugin_dict_of bidding_world) ''bidder'' = Some 1"
    by (simp add: bidding_world_def running_world_def initialized_world_def fresh_world_def
        plugin_dict_of_def)
  from bidding [THEN conjunct2, THEN conjunct2, THEN conjunct2, THEN conjunct2, THEN conjunct2,
    THEN conjunct2, THEN conjunct2, THEN conjunct2, THEN conjunct2, THEN conjunct1,
    THEN spec, THEN spec, THEN mp, OF later]
  have 10: "bid_into_DAM example_env example_options ''2020-07-10'' 0 bidding_world =
     (Inl (NameError ''project_tracking_trajectory''), bidding_world)" .
  have cur: "current_bids (extensions (sim bidding_world)) = Some (Bids example_bids)"
    by (simp add: bidding_world_def)
  from bidding [THEN conjunct2, THEN conjunct2, THEN conjunct2, THEN conjunct2, THEN conjunct2,
    THEN conjunct2, THEN conjunct2, THEN conjunct2, THEN conjunct2, THEN conjunct2,
    THEN conjunct2, THEN spec, THEN mp, OF cur] later
  have 11: "bid_into_RTM example_options bidding_world =
     (Inl (NameError ''pass_RT_bid_to_prescient''), bidding_world)"
    by simp
  have ok: "current_time (sim initialized_world) = None \<and>
      map_of (plugin_dict_of initialized_world) ''bidder'' = Some 1 \<and>
      stochastic_bidding example_env (calls initialized_world) 1 ''2020-07-10'' = Inr example_bids"
    by (simp add: initialized_world_def fresh_world_def plugin_dict_of_def example_env_def)
  from first_day [THEN conjunct2, THEN conjunct2, THEN conjunct2, THEN conjunct2,
    THEN conjunct2, THEN conjunct2, THEN conjunct2, THEN conjunct2, THEN conjunct2,
    THEN conjunct2, THEN conjunct1, THEN spec, THEN spec, THEN mp, OF ok]
  have 12: "fst (bid_into_DAM example_env example_options ''2020-07-10'' 0 initialized_world) =
     Inl (NameError ''_pass_DA_bid_to_prescient'')"
    by simp
  from 1 2 3 4 5 6 7 8 9 10 11 12 show ?thesis by (intro conjI)
qed

end
